theory Spec2Isabelle
  imports Complex_Main
begin

section \<open>Boxed expressions\<close>

text \<open>
  The engine's expression objects.  The class \<open>BoxedFunction\<close> is the one the
  source file defines; numbers, symbols and strings are instances of sibling classes
  and appear here as atoms.  A function node carries the fields of the class:
  \<open>_head\<close> (a name or an expression), \<open>_ops\<close>, the cache \<open>_canonical\<close>
  (undefined, the object itself, or another object) and \<open>_def\<close>.  A definition
  holds closures over expressions, so the node stores the name under which its
  definition was found and the engine resolves the name; \<open>None\<close> stands for a
  \<open>_def\<close> that is \<open>null\<close> or \<open>undefined\<close>.  The caches \<open>_value\<close>,
  \<open>_numericValue\<close>, \<open>_isPure\<close> and \<open>_hash\<close> hold what the getters compute and
  are left out.
\<close>

datatype numlit =
    MachineNaN
  | Machine rat
  | Bignum rat
  | ComplexNum rat rat
  | RationalNum int int

datatype atom =
    ANumber numlit
  | ASymbol string
  | AString string

datatype bexpr =
    BAtom atom
  | BFunction bhead "bexpr list" cache "string option"
and bhead =
    HName string
  | HExpr bexpr
and cache =
    Unset
  | Self
  | Cached bexpr

datatype hold = HoldAll | HoldNone | HoldFirst | HoldRest | HoldLast | HoldMost

text \<open>What a getter returns: the receiver itself, or another object.\<close>

datatype objref = This | Other bexpr

text \<open>\<open>-1 | 0 | 1 | undefined | null\<close>\<close>

datatype sign = Negative | Zero | Positive | SgnUndefined | SgnNull

text \<open>Domains are expressions of their own: a literal or a constructor applied to
  domains (\<open>Function\<close>, \<open>Maybe\<close>, \<open>Sequence\<close>, ...).\<close>

datatype domexpr = DomLit string | DomCtor string "domexpr list"

text \<open>The code of an error marker: a string, or a string with arguments.\<close>

datatype errcode = ErrCode string "domexpr list"

text \<open>The \<open>evaluate\<close> entry of a signature: absent, a lambda expression, or a
  function that returns an expression or \<open>undefined\<close>.\<close>

datatype evaluate_handler =
    NoEvaluate
  | EvaluateLambda bexpr
  | EvaluateFn "bexpr list \<Rightarrow> bexpr option"

record signature =
  sig_domain :: domexpr
  sig_canonical :: "(bexpr list \<Rightarrow> bexpr) option"
  sig_simplify :: "(bexpr list \<Rightarrow> bexpr option) option"
  sig_evaluate :: evaluate_handler
  sig_N :: "(bexpr list \<Rightarrow> bexpr option) option"

record fdef =
  d_name :: string
  d_hold :: hold
  d_associative :: bool
  d_commutative :: bool
  d_idempotent :: bool
  d_involution :: bool
  d_inert :: bool
  d_scoped :: bool
  d_pure :: "bool option"
  d_signature :: signature

text \<open>
  The compute engine, as far as \<open>BoxedFunction\<close> calls it.  Its code is not part of
  the sources at hand, so every entry is a parameter: the definition lookup in the
  current context, \<open>ce.context === null\<close>, \<open>ce.fn\<close>, \<open>ce.tuple\<close>,
  \<open>ce.error\<close>, the cost function, the iteration limit, \<open>expr.replace(rules)\<close> for
  the rule set in force, \<open>complexAllowed(ce)\<close> and \<open>preferBignum(ce)\<close>, the
  conversion \<open>Decimal.toNumber\<close>, the comparator \<open>order\<close>, the domain of an
  expression and the compatibility of domains, and the methods of the sibling classes
  (numbers, symbols, strings).
\<close>

record engine =
  ce_contextNull :: bool
  ce_lookupFunction :: "string \<Rightarrow> fdef option"
  ce_fn :: "string \<Rightarrow> bexpr list \<Rightarrow> bexpr"
  ce_tuple :: "bexpr list \<Rightarrow> bexpr"
  ce_error :: "errcode \<Rightarrow> bexpr option \<Rightarrow> bexpr"
  ce_costFunction :: "bexpr \<Rightarrow> real"
  ce_iterationLimit :: int
  ce_replace :: "bexpr \<Rightarrow> bexpr option"
  ce_complexAllowed :: bool
  ce_preferBignum :: bool
  ce_toNumber :: "rat \<Rightarrow> numlit"
  ce_order :: "bexpr \<Rightarrow> bexpr \<Rightarrow> int"
  ce_domainOf :: "bexpr \<Rightarrow> domexpr"
  ce_isCompatible :: "domexpr \<Rightarrow> domexpr \<Rightarrow> bool"
  ce_isImaginary :: "bexpr \<Rightarrow> bool option"
  atom_isValid :: "atom \<Rightarrow> bool"
  atom_isPure :: "atom \<Rightarrow> bool"
  atom_canonical :: "atom \<Rightarrow> objref"
  atom_simplify :: "atom \<Rightarrow> bexpr"
  atom_evaluate :: "atom \<Rightarrow> bexpr"
  atom_N :: "atom \<Rightarrow> bexpr"
  atom_subs :: "(string \<Rightarrow> bexpr option) \<Rightarrow> atom \<Rightarrow> bexpr"
  atom_sgn :: "atom \<Rightarrow> sign"
  atom_isZero :: "atom \<Rightarrow> bool option"
  atom_asSmallInteger :: "atom \<Rightarrow> int option"
  atom_match :: "atom \<Rightarrow> bexpr option \<Rightarrow> (string \<Rightarrow> bexpr option) option"

text \<open>
  Modelled from the spec: the accessors of the sibling classes.  A number, a symbol
  and a string answer \<open>head\<close> with the name of their kind, have no operands
  (\<open>ops\<close> is \<open>null\<close>), only a symbol has a \<open>symbol\<close>, functions and symbols are
  not literals, and \<open>op1\<close> of an expression without a first operand is the symbol
  \<open>Nothing\<close> (\<open>this._ops[0] ?? this.engine.symbol('Nothing')\<close> in
  \<open>BoxedFunction\<close>).
\<close>

definition Nothing :: bexpr where
  "Nothing = BAtom (ASymbol ''Nothing'')"

fun head_of :: "bexpr \<Rightarrow> bhead" where
  "head_of (BFunction h ops c d) = h"
| "head_of (BAtom (ANumber n)) = HName ''Number''"
| "head_of (BAtom (ASymbol s)) = HName ''Symbol''"
| "head_of (BAtom (AString s)) = HName ''String''"

fun ops_of :: "bexpr \<Rightarrow> bexpr list option" where
  "ops_of (BFunction h ops c d) = Some ops"
| "ops_of (BAtom a) = None"

fun op1 :: "bexpr \<Rightarrow> bexpr" where
  "op1 (BFunction h (x # xs) c d) = x"
| "op1 e = Nothing"

fun symbol_of :: "bexpr \<Rightarrow> string option" where
  "symbol_of (BAtom (ASymbol s)) = Some s"
| "symbol_of e = None"

fun isLiteral :: "bexpr \<Rightarrow> bool" where
  "isLiteral (BFunction h ops c d) = False"
| "isLiteral (BAtom (ASymbol s)) = False"
| "isLiteral (BAtom a) = True"

fun complexValue :: "bexpr \<Rightarrow> (rat \<times> rat) option" where
  "complexValue (BAtom (ANumber (ComplexNum re im))) = Some (re, im)"
| "complexValue e = None"

fun bignumValue :: "bexpr \<Rightarrow> rat option" where
  "bignumValue (BAtom (ANumber (Bignum b))) = Some b"
| "bignumValue e = None"

text \<open>\<open>ce._NAN\<close> and \<open>ce.number(x)\<close> for a machine number \<open>x\<close>.\<close>

definition ce_NAN :: bexpr where
  "ce_NAN = BAtom (ANumber MachineNaN)"

definition ce_number :: "numlit \<Rightarrow> bexpr" where
  "ce_number x = BAtom (ANumber x)"

subsection \<open>The getters of \<open>BoxedFunction\<close>\<close>

fun cache_of :: "bexpr \<Rightarrow> cache" where
  "cache_of (BFunction h ops c d) = c"
| "cache_of (BAtom a) = Unset"

text \<open>\<open>get isCanonical\<close>: \<open>this._canonical === this\<close>.\<close>

fun isCanonical :: "bexpr \<Rightarrow> bool" where
  "isCanonical (BFunction h ops c d) = (c = Self)"
| "isCanonical (BAtom a) = False"

text \<open>\<open>set isCanonical(val)\<close> and the assignment \<open>this._canonical = this\<close>.\<close>

fun set_isCanonical :: "bool \<Rightarrow> bexpr \<Rightarrow> bexpr" where
  "set_isCanonical val (BFunction h ops c d) = BFunction h ops (if val then Self else Unset) d"
| "set_isCanonical val (BAtom a) = BAtom a"

text \<open>\<open>get functionDefinition\<close>\<close>

fun functionDefinition :: "engine \<Rightarrow> bexpr \<Rightarrow> fdef option" where
  "functionDefinition ce (BFunction h ops c d) =
     (if c \<noteq> Self then None
      else case d of None \<Rightarrow> None | Some k \<Rightarrow> ce_lookupFunction ce k)"
| "functionDefinition ce (BAtom a) = None"

text \<open>\<open>get isValid\<close>\<close>

fun isValid :: "engine \<Rightarrow> bexpr \<Rightarrow> bool" where
  "isValid ce (BAtom a) = atom_isValid ce a"
| "isValid ce (BFunction (HExpr h) ops c d) =
     (if \<not> isValid ce h then False else list_all (isValid ce) ops)"
| "isValid ce (BFunction (HName n) ops c d) =
     (if n = ''Error'' then False
      else if c \<noteq> Self then True
      else if functionDefinition ce (BFunction (HName n) ops c d) = None then False
      else if \<not> list_all (isValid ce) ops then False
      else True)"

text \<open>\<open>get isPure\<close>\<close>

fun isPure :: "engine \<Rightarrow> bexpr \<Rightarrow> bool" where
  "isPure ce (BAtom a) = atom_isPure ce a"
| "isPure ce (BFunction h ops c d) =
     (if c \<noteq> Self then False
      else
        let result = (case functionDefinition ce (BFunction h ops c d) of
                        None \<Rightarrow> None | Some df \<Rightarrow> d_pure df)
        in if result \<noteq> Some False then list_all (isPure ce) ops else False)"

section \<open>holdMap\<close>

text \<open>\<open>applicable(skip, count, index)\<close>: is the operand at \<open>index\<close> one the
  operation is applied to, \<open>count\<close> being the index of the last operand.\<close>

fun applicable :: "hold \<Rightarrow> int \<Rightarrow> int \<Rightarrow> bool" where
  "applicable HoldAll count index = False"
| "applicable HoldNone count index = True"
| "applicable HoldFirst count index = (index \<noteq> 0)"
| "applicable HoldRest count index = (index = 0)"
| "applicable HoldLast count index = (index \<noteq> count)"
| "applicable HoldMost count index = (index = count)"

text \<open>
  Modelled from the spec: \<open>flattenOps\<close> of \<open>symbolic/flatten\<close>, which the
  source imports: \<open>f(a, f(b, c), d) -> f(a, b, c, d)\<close>, nested same-head calls merged
  into one flat list; the result is \<open>null\<close> when no operand has the head.
\<close>

fun flattenOps_deep :: "string \<Rightarrow> bexpr \<Rightarrow> bexpr list" where
  "flattenOps_deep h (BFunction h' ops c d) =
     (if h' = HName h then concat (map (flattenOps_deep h) ops)
      else [BFunction h' ops c d])"
| "flattenOps_deep h (BAtom a) = [BAtom a]"

definition flattenOps :: "bexpr list \<Rightarrow> string \<Rightarrow> bexpr list option" where
  "flattenOps ops h =
     (if list_all (\<lambda>x. head_of x \<noteq> HName h) ops then None
      else Some (concat (map (flattenOps_deep h) ops)))"

text \<open>\<open>flattenOps(xs, head) ?? xs\<close>\<close>

definition flattenOps_or :: "bexpr list \<Rightarrow> string \<Rightarrow> bexpr list" where
  "flattenOps_or xs h = (case flattenOps xs h of None \<Rightarrow> xs | Some ys \<Rightarrow> ys)"

text \<open>
  The loop of \<open>holdMap\<close>.  The operation \<open>f\<close> is a recursive call of
  \<open>simplify\<close>, \<open>evaluate\<close> or \<open>N\<close>: it may not return (outer \<open>None\<close>),
  and when it returns, it returns an expression or \<open>null\<close> (inner \<open>None\<close>).
  \<open>count\<close> is \<open>xs.length - 1\<close>, \<open>i\<close> the loop index, \<open>result\<close> the
  array being filled.
\<close>

fun holdMap_loop ::
  "hold \<Rightarrow> int \<Rightarrow> (bexpr \<Rightarrow> bexpr option option) \<Rightarrow> nat \<Rightarrow> bexpr list \<Rightarrow> bexpr list
     \<Rightarrow> bexpr list option" where
  "holdMap_loop skip count f i [] result = Some result"
| "holdMap_loop skip count f i (x # xs) result =
     (if head_of x = HName ''Hold'' then
        holdMap_loop skip count f (Suc i) xs (result @ [op1 x])
      else if head_of x = HName ''ReleaseHold'' then
        (case f (op1 x) of
           None \<Rightarrow> None
         | Some None \<Rightarrow> holdMap_loop skip count f (Suc i) xs result
         | Some (Some v) \<Rightarrow> holdMap_loop skip count f (Suc i) xs (result @ [v]))
      else if applicable skip count (int i) then
        (case f x of
           None \<Rightarrow> None
         | Some None \<Rightarrow> holdMap_loop skip count f (Suc i) xs result
         | Some (Some v) \<Rightarrow> holdMap_loop skip count f (Suc i) xs (result @ [v]))
      else holdMap_loop skip count f (Suc i) xs (result @ [x]))"

definition holdMap ::
  "string \<Rightarrow> bexpr list \<Rightarrow> hold \<Rightarrow> bool \<Rightarrow> (bexpr \<Rightarrow> bexpr option option)
     \<Rightarrow> bexpr list option" where
  "holdMap h xs skip associative f =
     (if xs = [] then Some []
      else
        let xs' = (if associative then flattenOps_or xs h else xs) in
        case holdMap_loop skip (int (length xs') - 1) f 0 xs' [] of
          None \<Rightarrow> None
        | Some result \<Rightarrow>
            Some (if associative then flattenOps_or result h else result))"

section \<open>Canonical form\<close>

text \<open>\<open>flattenSequence\<close>: the operands of an operand with head \<open>Sequence\<close> take
  its place.\<close>

fun flattenSequence :: "bexpr list \<Rightarrow> bexpr list" where
  "flattenSequence [] = []"
| "flattenSequence (x # xs) =
     (if head_of x = HName ''Sequence'' then
        (case ops_of x of None \<Rightarrow> [] | Some ops \<Rightarrow> ops) @ flattenSequence xs
      else x # flattenSequence xs)"

text \<open>
  \<open>validateSignature\<close>.  The loop runs \<open>i\<close> from \<open>0\<close> to \<open>count - 1\<close>;
  \<open>k\<close> is the number of iterations left.  \<open>domainArgs\<close> of a domain that is
  not a constructor application is \<open>null\<close>, and slicing it is a TypeError
  (\<open>None\<close> of the outer option).
\<close>

fun symbol_startsWith_underscore :: "bexpr \<Rightarrow> bool" where
  "symbol_startsWith_underscore e =
     (case symbol_of e of None \<Rightarrow> False | Some s \<Rightarrow> (case s of [] \<Rightarrow> False | c # cs \<Rightarrow> c = CHR ''_''))"

fun validate_loop ::
  "engine \<Rightarrow> domexpr list \<Rightarrow> bexpr list \<Rightarrow> nat \<Rightarrow> nat \<Rightarrow> bexpr list \<Rightarrow> bexpr list" where
  "validate_loop ce expectedArgs ops i 0 newOps = newOps"
| "validate_loop ce expectedArgs ops i (Suc k) newOps =
     (if length expectedArgs \<le> i then
        validate_loop ce expectedArgs ops (Suc i) k
          (newOps @ [ce_error ce (ErrCode ''unexpected-argument'' []) (Some (ops ! i))])
      else
        let ex = expectedArgs ! i;
            lhsCtor = (case ex of DomCtor c args \<Rightarrow> Some c | DomLit l \<Rightarrow> None)
        in
          if length ops \<le> i then
            (if lhsCtor = Some ''Maybe'' then newOps @ [Nothing]
             else newOps @ [ce_error ce (ErrCode ''missing'' [ex]) None])
          else if lhsCtor = Some ''Sequence'' then
            (let seq = (case ex of DomCtor c (a # as) \<Rightarrow> a | _ \<Rightarrow> DomLit [])
             in newOps @
                map (\<lambda>x. if \<not> ce_isCompatible ce (ce_domainOf ce x) seq
                          then ce_error ce
                                 (ErrCode ''incompatible-domain'' [seq, ce_domainOf ce x]) (Some x)
                          else x)
                    (drop i ops))
          else if \<not> symbol_startsWith_underscore (ops ! i)
                  \<and> \<not> ce_isCompatible ce (ce_domainOf ce (ops ! i)) ex then
            validate_loop ce expectedArgs ops (Suc i) k
              (newOps @ [ce_error ce (ErrCode ''incompatible-domain'' [ex]) (Some (ops ! i))])
          else validate_loop ce expectedArgs ops (Suc i) k (newOps @ [ops ! i]))"

definition validateSignature ::
  "engine \<Rightarrow> signature \<Rightarrow> bexpr list \<Rightarrow> bexpr list option option" where
  "validateSignature ce sig ops =
     (let opsDomain = map (ce_domainOf ce) ops;
          targetSig = DomCtor ''Function'' (opsDomain @ [DomLit ''Anything''])
      in if ce_isCompatible ce (sig_domain sig) targetSig then Some None
         else case sig_domain sig of
                DomLit l \<Rightarrow> None
              | DomCtor c domainArgs \<Rightarrow>
                  let expectedArgs = butlast domainArgs;
                      count = max (length expectedArgs) (length opsDomain)
                  in Some (Some (validate_loop ce expectedArgs ops 0 count [])))"

text \<open>
  \<open>ops.sort(order)\<close>: the sort of the language is stable, and \<open>order(a, b)\<close>
  is positive when \<open>b\<close> comes first.  An element is inserted from the right, before
  the first element it does not come after, so equal elements keep their order.
\<close>

fun insert_sorted :: "(bexpr \<Rightarrow> bexpr \<Rightarrow> int) \<Rightarrow> bexpr \<Rightarrow> bexpr list \<Rightarrow> bexpr list" where
  "insert_sorted cmp x [] = [x]"
| "insert_sorted cmp x (y # ys) =
     (if cmp x y \<le> 0 then x # y # ys else y # insert_sorted cmp x ys)"

fun sort_by :: "(bexpr \<Rightarrow> bexpr \<Rightarrow> int) \<Rightarrow> bexpr list \<Rightarrow> bexpr list" where
  "sort_by cmp [] = []"
| "sort_by cmp (x # xs) = insert_sorted cmp x (sort_by cmp xs)"

text \<open>
  \<open>makeCanonicalFunction\<close> from the point where the operands are canonical and
  flattened and the head is resolved.  A new \<open>BoxedFunction\<close> is created with
  \<open>canonical: true\<close>, so its \<open>_canonical\<close> is itself.  \<open>ops[0].ops!\<close> of an
  operand that is not a function is \<open>null\<close>, and reading its length is a TypeError
  (\<open>None\<close>).  The calls \<open>ce.pushScope()\<close> and \<open>ce.popScope()\<close> of a scoped
  definition change the scope stack of the engine only, which is fixed here.
\<close>

definition makeCanonicalFunction_resolved :: "engine \<Rightarrow> bhead \<Rightarrow> bexpr list \<Rightarrow> bexpr option" where
  "makeCanonicalFunction_resolved ce h ops =
     (case h of
        HExpr e \<Rightarrow> Some (BFunction (HExpr e) ops Self None)
      | HName s \<Rightarrow>
          (if ce_contextNull ce then Some (BFunction (HName s) ops Self None)
           else
             (case ce_lookupFunction ce s of
                None \<Rightarrow> Some (BFunction (HName s) ops Self None)
              | Some def \<Rightarrow>
                  (let ops1 = (if d_associative def then flattenOps_or ops s else ops);
                       sig = d_signature def
                   in
                     (case validateSignature ce sig ops1 of
                        None \<Rightarrow> None
                      | Some v \<Rightarrow>
                          (let ops2 = (case v of None \<Rightarrow> ops1 | Some newOps \<Rightarrow> newOps) in
                             (if \<not> list_all (isValid ce) ops2 then
                                Some (BFunction (HName s) ops2 Self (Some s))
                              else
                                (case sig_canonical sig of
                                   Some handler \<Rightarrow> Some (handler ops2)
                                 | None \<Rightarrow>
                                     (if length ops2 = 1 \<and> head_of (hd ops2) = HName s
                                         \<and> d_involution def
                                      then Some (op1 (hd ops2))
                                      else
                                        (case (if length ops2 = 1 \<and> head_of (hd ops2) = HName s
                                                  \<and> d_idempotent def
                                               then ops_of (hd ops2) else Some ops2) of
                                           None \<Rightarrow> None
                                         | Some ops3 \<Rightarrow>
                                             Some (BFunction (HName s)
                                                     (if length ops3 > 1 \<and> d_commutative def
                                                      then sort_by (ce_order ce) ops3 else ops3)
                                                     Self (Some s))))))))))))"

text \<open>The object a getter returned, as a value: the receiver with its cache set,
  or the other object.\<close>

fun deref :: "bexpr \<Rightarrow> objref \<Rightarrow> bexpr" where
  "deref e This = set_isCanonical True e"
| "deref e (Other r) = r"

text \<open>The substitution \<open>lambda\<close> builds from the arguments: \<open>__\<close> the tuple of
  the arguments, \<open>_#\<close> their number, \<open>_1\<close>, \<open>_2\<close>, ... the arguments, and
  \<open>_\<close> what \<open>_1\<close> is.\<close>

fun digit_char :: "nat \<Rightarrow> char" where
  "digit_char n = ''0123456789'' ! n"

fun show_nat_fuel :: "nat \<Rightarrow> nat \<Rightarrow> string" where
  "show_nat_fuel 0 n = []"
| "show_nat_fuel (Suc k) n =
     (if n < 10 then [digit_char n] else show_nat_fuel k (n div 10) @ [digit_char (n mod 10)])"

definition show_nat :: "nat \<Rightarrow> string" where
  "show_nat n = show_nat_fuel (Suc n) n"

definition lambda_subs :: "engine \<Rightarrow> bexpr list \<Rightarrow> string \<Rightarrow> bexpr option" where
  "lambda_subs ce args =
     map_of
       ((case args of [] \<Rightarrow> [] | a # as \<Rightarrow> [(''_'', a)])
        @ zip (map (\<lambda>n. CHR ''_'' # show_nat n) [1 ..< Suc (length args)]) args
        @ [(''__'', ce_tuple ce args),
           (''_#'', ce_number (Machine (of_nat (length args))))])"

section \<open>The rewrite loop of simplify\<close>

text \<open>
  \<open>cheapest(oldExpr, newExpr)\<close>.  The second argument may be \<open>null\<close> or
  \<open>undefined\<close> (\<open>None\<close>); \<open>ce.box\<close> of a boxed expression is the expression.
  The costs are numbers of the language (doubles), taken as reals here: the rounding
  of the product \<open>1.7 * cost\<close> and a cost that is \<open>NaN\<close> are left out, so the
  comparison is that of the code when the product is exact or the two sides are not
  within a rounding of each other, as for the small whole costs of the examples.
  \<open>===\<close> on two expressions is taken as equality of the trees.
\<close>

definition cheapest :: "engine \<Rightarrow> bexpr \<Rightarrow> bexpr option \<Rightarrow> bexpr" where
  "cheapest ce oldExpr newExpr =
     (case newExpr of
        None \<Rightarrow> oldExpr
      | Some new \<Rightarrow>
          if oldExpr = new then oldExpr
          else
            let boxedNewExpr = new in
            if ce_costFunction ce boxedNewExpr \<le> (17 / 10) * ce_costFunction ce oldExpr
            then boxedNewExpr
            else oldExpr)"

text \<open>
  Step 5 of \<open>simplify\<close>: the \<open>do ... while\<close> loop that applies the rules.
  The call in the loop is \<open>cheapest(newExpr, expr)\<close>: the rewritten expression is
  passed as \<open>oldExpr\<close>, the current one as \<open>newExpr\<close>.
\<close>

function simplify_loop :: "engine \<Rightarrow> bexpr \<Rightarrow> int \<Rightarrow> bexpr" where
  "simplify_loop ce expr iterationCount =
     (case ce_replace ce expr of
        None \<Rightarrow> expr
      | Some newExpr \<Rightarrow>
          let expr' = cheapest ce newExpr (Some expr) in
          if expr' = newExpr then expr'
          else if iterationCount + 1 < ce_iterationLimit ce
          then simplify_loop ce expr' (iterationCount + 1)
          else expr')"
  by pat_completeness auto
termination
  by (relation "measure (\<lambda>(ce, expr, k). nat (ce_iterationLimit ce - k))") auto

text \<open>The end of \<open>N\<close>: a literal result is converted when the numeric mode does
  not allow its kind.\<close>

definition N_result :: "engine \<Rightarrow> bexpr \<Rightarrow> bexpr" where
  "N_result ce result =
     (if isLiteral result then
        (if \<not> ce_complexAllowed ce \<and> complexValue result \<noteq> None then ce_NAN
         else if \<not> ce_preferBignum ce \<and> bignumValue result \<noteq> None
         then ce_number (ce_toNumber ce (the (bignumValue result)))
         else result)
      else result)"

section \<open>canonical, subs, simplify, evaluate, N\<close>

text \<open>
  The methods that call each other: the getter \<open>canonical\<close>,
  \<open>makeCanonicalFunction\<close>, \<open>subs\<close>, \<open>lambda\<close>, \<open>simplify\<close>,
  \<open>evaluate\<close>, \<open>N\<close>.  Handlers and rules are arbitrary, so a call may not
  return; \<open>None\<close> is a call that does not return a value (it does not end, or ends
  in a TypeError).  Each body is written first with the methods it calls as arguments
  (\<open>mk\<close>, \<open>canon\<close>, \<open>eval\<close>, \<open>sub\<close>, \<open>self\<close>); the recursion that
  ties them together, bounded in depth, follows.
\<close>

text \<open>\<open>get canonical\<close>\<close>

definition canonical_get_body ::
  "(bhead \<Rightarrow> bexpr list \<Rightarrow> bexpr option) \<Rightarrow> engine \<Rightarrow> bexpr \<Rightarrow> objref option" where
  "canonical_get_body mk ce e =
     (case e of
        BAtom a \<Rightarrow> Some (atom_canonical ce a)
      | BFunction h ops c d \<Rightarrow>
          (case c of
             Self \<Rightarrow> Some This
           | Cached r \<Rightarrow> Some (Other r)
           | Unset \<Rightarrow>
               (if isValid ce e then map_option Other (mk h ops)
                else Some This)))"

text \<open>\<open>makeCanonicalFunction\<close>: the operands are made canonical and flattened,
  a head that is an expression is evaluated and replaced by the symbol it evaluates to,
  if any.\<close>

definition makeCanonicalFunction_body ::
  "(bexpr \<Rightarrow> bexpr option) \<Rightarrow> (bexpr \<Rightarrow> bexpr option) \<Rightarrow> engine \<Rightarrow> bhead \<Rightarrow> bexpr list
     \<Rightarrow> bexpr option" where
  "makeCanonicalFunction_body canon eval ce h ops =
     (case those (map canon ops) of
        None \<Rightarrow> None
      | Some cops \<Rightarrow>
          (case (case h of
                   HName s \<Rightarrow> Some (HName s)
                 | HExpr e \<Rightarrow>
                     (case eval e of
                        None \<Rightarrow> None
                      | Some v \<Rightarrow>
                          Some (case symbol_of v of Some s \<Rightarrow> HName s | None \<Rightarrow> HExpr e))) of
             None \<Rightarrow> None
           | Some h' \<Rightarrow> makeCanonicalFunction_resolved ce h' (flattenSequence cops)))"

text \<open>\<open>subs\<close>\<close>

definition subs_body ::
  "(bexpr \<Rightarrow> bexpr option) \<Rightarrow> (bhead \<Rightarrow> bexpr list \<Rightarrow> bexpr option) \<Rightarrow> engine
     \<Rightarrow> (string \<Rightarrow> bexpr option) \<Rightarrow> bexpr \<Rightarrow> bexpr option" where
  "subs_body self mk ce sub e =
     (case e of
        BAtom a \<Rightarrow> Some (atom_subs ce sub a)
      | BFunction h ops c d \<Rightarrow>
          (case those (map self ops) of
             None \<Rightarrow> None
           | Some ops' \<Rightarrow> mk h ops'))"

text \<open>Step 2 of the three operations: the operation \<open>self\<close> applied to the
  operands that are not held.\<close>

definition hold_tail ::
  "engine \<Rightarrow> bexpr \<Rightarrow> bexpr list \<Rightarrow> (bexpr \<Rightarrow> bexpr option) \<Rightarrow> bexpr list option" where
  "hold_tail ce e ops self =
     (case functionDefinition ce e of
        Some df \<Rightarrow>
          holdMap (d_name df) ops (d_hold df) (d_associative df)
            (\<lambda>x. map_option Some (self x))
      | None \<Rightarrow> holdMap [] ops HoldNone False (\<lambda>x. map_option Some (self x)))"

text \<open>Step 4 of \<open>simplify\<close>: what the handler gives, \<open>undefined\<close> being the
  inner \<open>None\<close>.\<close>

definition simplify_handler ::
  "(bexpr \<Rightarrow> bexpr option) \<Rightarrow> engine \<Rightarrow> bexpr \<Rightarrow> bexpr list \<Rightarrow> bexpr option option" where
  "simplify_handler canon ce e tail =
     (case functionDefinition ce e of
        None \<Rightarrow> Some None
      | Some df \<Rightarrow>
          (if d_inert df then
             (case tail of
                [] \<Rightarrow> Some (Some e)
              | t # ts \<Rightarrow> map_option Some (canon t))
           else
             (case sig_simplify (d_signature df) of
                None \<Rightarrow> Some None
              | Some handler \<Rightarrow> Some (handler tail))))"

text \<open>\<open>simplify\<close>\<close>

definition simplify_body ::
  "(bexpr \<Rightarrow> bexpr option) \<Rightarrow> (bexpr \<Rightarrow> bexpr option)
     \<Rightarrow> ((string \<Rightarrow> bexpr option) \<Rightarrow> bexpr \<Rightarrow> bexpr option) \<Rightarrow> engine \<Rightarrow> bexpr \<Rightarrow> bexpr option" where
  "simplify_body self canon sub ce e =
     (case e of
        BAtom a \<Rightarrow> Some (atom_simplify ce a)
      | BFunction h ops c d \<Rightarrow>
          (if \<not> isValid ce e then Some e
           else if \<not> isCanonical e then
             (case canon e of
                None \<Rightarrow> None
              | Some r \<Rightarrow> self r)
           else
             (case hold_tail ce e ops self of
                None \<Rightarrow> None
              | Some tail \<Rightarrow>
                  (case h of
                     HExpr he \<Rightarrow>
                       (case sub (lambda_subs ce tail) he of
                          None \<Rightarrow> None
                        | Some l \<Rightarrow> self l)
                   | HName hn \<Rightarrow>
                       (case simplify_handler canon ce e tail of
                          None \<Rightarrow> None
                        | Some handled \<Rightarrow>
                            (case (case handled of
                                     Some x \<Rightarrow> Some x
                                   | None \<Rightarrow> canon (ce_fn ce hn tail)) of
                               None \<Rightarrow> None
                             | Some expr \<Rightarrow> Some (simplify_loop ce expr 0)))))))"

text \<open>\<open>evaluate\<close>\<close>

definition evaluate_body ::
  "(bexpr \<Rightarrow> bexpr option) \<Rightarrow> (bexpr \<Rightarrow> bexpr option)
     \<Rightarrow> ((string \<Rightarrow> bexpr option) \<Rightarrow> bexpr \<Rightarrow> bexpr option) \<Rightarrow> engine \<Rightarrow> bexpr \<Rightarrow> bexpr option" where
  "evaluate_body self canon sub ce e =
     (case e of
        BAtom a \<Rightarrow> Some (atom_evaluate ce a)
      | BFunction h ops c d \<Rightarrow>
          (if \<not> isValid ce e then Some e
           else if \<not> isCanonical e then
             (case canon e of
                None \<Rightarrow> None
              | Some r \<Rightarrow> self r)
           else
             (case hold_tail ce e ops self of
                None \<Rightarrow> None
              | Some tail \<Rightarrow>
                  (case h of
                     HExpr he \<Rightarrow>
                       (case sub (lambda_subs ce tail) he of
                          None \<Rightarrow> None
                        | Some l \<Rightarrow> self l)
                   | HName hn \<Rightarrow>
                       (case functionDefinition ce e of
                          None \<Rightarrow> canon (ce_fn ce hn tail)
                        | Some df \<Rightarrow>
                            (if d_inert df then Some (case tail of [] \<Rightarrow> e | t # ts \<Rightarrow> t)
                             else
                               (case sig_evaluate (d_signature df) of
                                  NoEvaluate \<Rightarrow> canon (ce_fn ce hn tail)
                                | EvaluateLambda l \<Rightarrow>
                                    (case sub (lambda_subs ce tail) l of
                                       None \<Rightarrow> None
                                     | Some r \<Rightarrow> self r)
                                | EvaluateFn handler \<Rightarrow>
                                    (case handler tail of
                                       Some r \<Rightarrow> Some r
                                     | None \<Rightarrow> canon (ce_fn ce hn tail)))))))))"

text \<open>Step 5 of \<open>N\<close>: \<open>sig?.N?.(this.engine, tail)\<close>, \<open>undefined\<close> when
  there is no handler.\<close>

definition N_handler :: "fdef \<Rightarrow> bexpr list \<Rightarrow> bexpr option" where
  "N_handler df tail =
     (case sig_N (d_signature df) of
        None \<Rightarrow> None
      | Some handler \<Rightarrow> handler tail)"

text \<open>\<open>N\<close>\<close>

definition N_body ::
  "(bexpr \<Rightarrow> bexpr option) \<Rightarrow> (bexpr \<Rightarrow> bexpr option) \<Rightarrow> (bexpr \<Rightarrow> bexpr option)
     \<Rightarrow> ((string \<Rightarrow> bexpr option) \<Rightarrow> bexpr \<Rightarrow> bexpr option) \<Rightarrow> engine \<Rightarrow> bexpr \<Rightarrow> bexpr option" where
  "N_body self canon eval sub ce e =
     (case e of
        BAtom a \<Rightarrow> Some (atom_N ce a)
      | BFunction h ops c d \<Rightarrow>
          (if \<not> isValid ce e then Some e
           else if \<not> isCanonical e then
             (case canon e of
                None \<Rightarrow> None
              | Some r \<Rightarrow> self r)
           else
             (case hold_tail ce e ops self of
                None \<Rightarrow> None
              | Some tail \<Rightarrow>
                  (case h of
                     HExpr he \<Rightarrow>
                       (case sub (lambda_subs ce tail) he of
                          None \<Rightarrow> None
                        | Some l \<Rightarrow> self l)
                   | HName hn \<Rightarrow>
                       (case functionDefinition ce e of
                          None \<Rightarrow> canon (ce_fn ce hn tail)
                        | Some df \<Rightarrow>
                            (if d_inert df then Some (case tail of [] \<Rightarrow> e | t # ts \<Rightarrow> t)
                             else
                               (case (case N_handler df tail of
                                        Some r \<Rightarrow> Some r
                                      | None \<Rightarrow> eval (ce_fn ce hn tail)) of
                                  None \<Rightarrow> None
                                | Some result \<Rightarrow> Some (N_result ce result))))))))"

text \<open>The recursion.  The first argument bounds the depth of the calls.\<close>

function canonical_get :: "nat \<Rightarrow> engine \<Rightarrow> bexpr \<Rightarrow> objref option"
and makeCanonicalFunction :: "nat \<Rightarrow> engine \<Rightarrow> bhead \<Rightarrow> bexpr list \<Rightarrow> bexpr option"
and subs :: "nat \<Rightarrow> engine \<Rightarrow> (string \<Rightarrow> bexpr option) \<Rightarrow> bexpr \<Rightarrow> bexpr option"
and simplify :: "nat \<Rightarrow> engine \<Rightarrow> bexpr \<Rightarrow> bexpr option"
and evaluate :: "nat \<Rightarrow> engine \<Rightarrow> bexpr \<Rightarrow> bexpr option"
and N :: "nat \<Rightarrow> engine \<Rightarrow> bexpr \<Rightarrow> bexpr option"
where
  "canonical_get 0 ce e = None"
| "canonical_get (Suc n) ce e =
     canonical_get_body (\<lambda>h ops. makeCanonicalFunction n ce h ops) ce e"
| "makeCanonicalFunction 0 ce h ops = None"
| "makeCanonicalFunction (Suc n) ce h ops =
     makeCanonicalFunction_body
       (\<lambda>x. map_option (deref x) (canonical_get n ce x))
       (\<lambda>x. evaluate n ce x) ce h ops"
| "subs 0 ce sub e = None"
| "subs (Suc n) ce sub e =
     subs_body (\<lambda>x. subs n ce sub x) (\<lambda>h ops. makeCanonicalFunction n ce h ops) ce sub e"
| "simplify 0 ce e = None"
| "simplify (Suc n) ce e =
     simplify_body (\<lambda>x. simplify n ce x)
       (\<lambda>x. map_option (deref x) (canonical_get n ce x))
       (\<lambda>s x. subs n ce s x) ce e"
| "evaluate 0 ce e = None"
| "evaluate (Suc n) ce e =
     evaluate_body (\<lambda>x. evaluate n ce x)
       (\<lambda>x. map_option (deref x) (canonical_get n ce x))
       (\<lambda>s x. subs n ce s x) ce e"
| "N 0 ce e = None"
| "N (Suc n) ce e =
     N_body (\<lambda>x. N n ce x)
       (\<lambda>x. map_option (deref x) (canonical_get n ce x))
       (\<lambda>x. evaluate n ce x)
       (\<lambda>s x. subs n ce s x) ce e"
  by pat_completeness auto
termination
  by (relation
        "measure
           (case_sum
              (case_sum (\<lambda>p. fst p) (case_sum (\<lambda>p. fst p) (\<lambda>p. fst p)))
              (case_sum (\<lambda>p. fst p) (case_sum (\<lambda>p. fst p) (\<lambda>p. fst p))))")
     auto

text \<open>\<open>e.canonical\<close> as a value.\<close>

definition canonical :: "nat \<Rightarrow> engine \<Rightarrow> bexpr \<Rightarrow> bexpr option" where
  "canonical n ce e = map_option (deref e) (canonical_get n ce e)"

text \<open>\<open>lambda(ce, fn, args)\<close>\<close>

definition lambda :: "nat \<Rightarrow> engine \<Rightarrow> bexpr \<Rightarrow> bexpr list \<Rightarrow> bexpr option" where
  "lambda n ce fn args = subs n ce (lambda_subs ce args) fn"

section \<open>match\<close>

text \<open>
  \<open>match(rhs)\<close> of a function pattern.  A substitution is an object from wildcard
  names to expressions; \<open>{...result, ...m}\<close> is the map \<open>result ++ m\<close>.  The loop
  over the operands of the pattern reads \<open>rhsTail[i]\<close>, which is \<open>undefined\<close>
  (\<open>None\<close>) past the end of the operands of \<open>rhs\<close>.
\<close>

fun match :: "engine \<Rightarrow> bexpr \<Rightarrow> bexpr option \<Rightarrow> (string \<Rightarrow> bexpr option) option"
and match_ops ::
  "engine \<Rightarrow> bexpr list \<Rightarrow> bexpr list \<Rightarrow> (string \<Rightarrow> bexpr option)
     \<Rightarrow> (string \<Rightarrow> bexpr option) option"
where
  "match ce (BAtom a) rhs = atom_match ce a rhs"
| "match ce (BFunction h ops c d) rhs =
     (case rhs of
        None \<Rightarrow> None
      | Some (BAtom a) \<Rightarrow> None
      | Some (BFunction rh rops rc rd) \<Rightarrow>
          (case (case h of
                   HName s \<Rightarrow> (if HName s \<noteq> rh then None else Some Map.empty)
                 | HExpr he \<Rightarrow>
                     (case rh of
                        HName rs \<Rightarrow> None
                      | HExpr rhe \<Rightarrow>
                          (case match ce he (Some rhe) of
                             None \<Rightarrow> None
                           | Some m \<Rightarrow> Some (Map.empty ++ m)))) of
             None \<Rightarrow> None
           | Some result \<Rightarrow> match_ops ce ops rops result))"
| "match_ops ce [] rhsTail result = Some result"
| "match_ops ce (l # lhsTail) rhsTail result =
     (case match ce l (case rhsTail of [] \<Rightarrow> None | r # rs \<Rightarrow> Some r) of
        None \<Rightarrow> None
      | Some m \<Rightarrow> match_ops ce lhsTail (tl rhsTail) (result ++ m))"

section \<open>sgn\<close>

text \<open>The number a sign stands for in \<open>x.sgn ?? NaN\<close>; \<open>None\<close> is \<open>NaN\<close>.\<close>

fun sgn_or_NaN :: "sign \<Rightarrow> int option" where
  "sgn_or_NaN Negative = Some (- 1)"
| "sgn_or_NaN Zero = Some 0"
| "sgn_or_NaN Positive = Some 1"
| "sgn_or_NaN SgnUndefined = None"
| "sgn_or_NaN SgnNull = None"

text \<open>The product of two numbers, one of which may be \<open>NaN\<close>.\<close>

fun times_NaN :: "int option \<Rightarrow> int option \<Rightarrow> int option" where
  "times_NaN (Some a) (Some b) = Some (a * b)"
| "times_NaN a b = None"

text \<open>The branch \<open>Multiply\<close>: \<open>reduce((acc, x) => acc * (x.sgn ?? NaN), 1)\<close> and
  the tests on the total.\<close>

definition sgn_Multiply :: "sign list \<Rightarrow> sign" where
  "sgn_Multiply signs =
     (case foldl (\<lambda>acc s. times_NaN acc (sgn_or_NaN s)) (Some 1) signs of
        None \<Rightarrow> SgnNull
      | Some product \<Rightarrow>
          (if product > 0 then Positive else if product < 0 then Negative else Zero))"

text \<open>The branch \<open>Negate\<close>\<close>

fun sgn_Negate :: "sign \<Rightarrow> sign" where
  "sgn_Negate SgnUndefined = SgnUndefined"
| "sgn_Negate SgnNull = SgnNull"
| "sgn_Negate Zero = Zero"
| "sgn_Negate Positive = Negative"
| "sgn_Negate Negative = Positive"

text \<open>The branch \<open>Add\<close>: the loop counts the signs and stops at the first operand
  whose sign is \<open>null\<close> or \<open>undefined\<close>.\<close>

fun sgn_Add_loop ::
  "(bexpr \<Rightarrow> sign option) \<Rightarrow> bexpr list \<Rightarrow> nat \<times> nat \<times> nat \<Rightarrow> (nat \<times> nat \<times> nat) option" where
  "sgn_Add_loop self [] counts = Some counts"
| "sgn_Add_loop self (x # xs) (posCount, negCount, zeroCount) =
     (case self x of
        None \<Rightarrow> None
      | Some s \<Rightarrow>
          (if s = SgnNull \<or> s = SgnUndefined then Some (posCount, negCount, zeroCount)
           else sgn_Add_loop self xs
                  (if s = Positive then Suc posCount else posCount,
                   if s = Negative then Suc negCount else negCount,
                   if s = Zero then Suc zeroCount else zeroCount)))"

definition sgn_Add :: "(bexpr \<Rightarrow> sign option) \<Rightarrow> bexpr list \<Rightarrow> sign option" where
  "sgn_Add self ops =
     (case sgn_Add_loop self ops (0, 0, 0) of
        None \<Rightarrow> None
      | Some (posCount, negCount, zeroCount) \<Rightarrow>
          Some (if zeroCount = length ops then Zero
                else if posCount = length ops then Positive
                else if negCount = length ops then Negative
                else SgnNull))"

text \<open>The branch \<open>Divide\<close>, from the signs of the first two operands
  (\<open>undefined\<close> for an operand that is not there).\<close>

definition sgn_Divide :: "sign \<Rightarrow> sign \<Rightarrow> sign" where
  "sgn_Divide n d =
     (if n = SgnNull \<or> d = SgnNull \<or> n = SgnUndefined \<or> d = SgnUndefined then SgnNull
      else if n = Zero then Zero
      else if (n = Positive \<and> d = Positive) \<or> (n = Negative \<and> d = Negative) then Positive
      else Negative)"

text \<open>\<open>get isZero\<close> of a function, from its sign; of an atom, its own.\<close>

definition isZero_of :: "(bexpr \<Rightarrow> sign option) \<Rightarrow> engine \<Rightarrow> bexpr \<Rightarrow> bool option option" where
  "isZero_of self ce x =
     (case x of
        BAtom a \<Rightarrow> Some (atom_isZero ce a)
      | BFunction h ops c d \<Rightarrow>
          (case self x of
             None \<Rightarrow> None
           | Some s \<Rightarrow>
               Some (if s = SgnNull then Some False
                     else if s = SgnUndefined then None
                     else Some (s = Zero))))"

text \<open>
  Modelled from the spec: \<open>asSmallInteger\<close>, "if the value of this expression is an
  integer with a small absolute value, return this value, otherwise \<open>null\<close>"; a
  function expression has no such value.
\<close>

fun asSmallInteger :: "engine \<Rightarrow> bexpr \<Rightarrow> int option" where
  "asSmallInteger ce (BAtom a) = atom_asSmallInteger ce a"
| "asSmallInteger ce (BFunction h ops c d) = None"

text \<open>\<open>get numericValue\<close> of a canonical function whose cache is empty:
  \<open>undefined\<close> (inner \<open>None\<close>) when the function is not pure or \<open>N\<close> returns the
  function itself.\<close>

definition numericValue :: "(bexpr \<Rightarrow> bexpr option) \<Rightarrow> engine \<Rightarrow> bexpr \<Rightarrow> bexpr option option" where
  "numericValue Nf ce e =
     (if \<not> isPure ce e then Some None
      else
        (case Nf e of
           None \<Rightarrow> None
         | Some v \<Rightarrow> Some (if v = e then None else Some v)))"

text \<open>The last lines of \<open>sgn\<close>: the sign of
  \<open>(this.numericValue ?? this.N()).asSmallInteger\<close>.\<close>

definition sgn_numeric :: "(bexpr \<Rightarrow> bexpr option) \<Rightarrow> engine \<Rightarrow> bexpr \<Rightarrow> sign option" where
  "sgn_numeric Nf ce e =
     (case (case numericValue Nf ce e of
              None \<Rightarrow> None
            | Some (Some v) \<Rightarrow> Some v
            | Some None \<Rightarrow> Nf e) of
        None \<Rightarrow> None
      | Some r \<Rightarrow>
          Some (case asSmallInteger ce r of
                  None \<Rightarrow> SgnUndefined
                | Some v \<Rightarrow> (if v = 0 then Zero else if v < 0 then Negative else Positive)))"

text \<open>\<open>get sgn\<close>; \<open>self\<close> is the getter on an operand, \<open>canon\<close> the getter
  \<open>canonical\<close>, \<open>Nf\<close> the method \<open>N\<close>.\<close>

definition sgn_body ::
  "(bexpr \<Rightarrow> sign option) \<Rightarrow> (bexpr \<Rightarrow> bexpr option) \<Rightarrow> (bexpr \<Rightarrow> bexpr option) \<Rightarrow> engine
     \<Rightarrow> bexpr \<Rightarrow> sign option" where
  "sgn_body self canon Nf ce e =
     (case e of
        BAtom a \<Rightarrow> Some (atom_sgn ce a)
      | BFunction h ops c d \<Rightarrow>
          (if \<not> isCanonical e then
             (case canon e of
                None \<Rightarrow> None
              | Some r \<Rightarrow> self r)
           else if h = HName ''Negate'' then
             (case ops of
                [] \<Rightarrow> Some SgnUndefined
              | x # xs \<Rightarrow> map_option sgn_Negate (self x))
           else if h = HName ''Multiply'' then
             map_option sgn_Multiply (those (map self ops))
           else if h = HName ''Add'' then sgn_Add self ops
           else if h = HName ''Divide'' then
             (case (case ops of [] \<Rightarrow> Some SgnUndefined | x # xs \<Rightarrow> self x) of
                None \<Rightarrow> None
              | Some n \<Rightarrow>
                  (case (case ops of x # y # ys \<Rightarrow> self y | _ \<Rightarrow> Some SgnUndefined) of
                     None \<Rightarrow> None
                   | Some d \<Rightarrow> Some (sgn_Divide n d)))
           else if h = HName ''Square'' then
             (case ops of
                [] \<Rightarrow> Some Positive
              | x # xs \<Rightarrow>
                  (if ce_isImaginary ce x = Some True then Some Negative
                   else
                     (case isZero_of self ce x of
                        None \<Rightarrow> None
                      | Some z \<Rightarrow> Some (if z = Some True then Zero else Positive))))
           else if h = HName ''Abs'' then
             (case ops of
                [] \<Rightarrow> Some Positive
              | x # xs \<Rightarrow>
                  (case isZero_of self ce x of
                     None \<Rightarrow> None
                   | Some z \<Rightarrow> Some (if z = Some True then Zero else Positive)))
           else if h = HName ''Sqrt'' then
             (case ops of
                [] \<Rightarrow> Some Positive
              | x # xs \<Rightarrow>
                  (case isZero_of self ce x of
                     None \<Rightarrow> None
                   | Some z \<Rightarrow>
                       Some (if z = Some True then Zero
                             else if ce_isImaginary ce x = Some True then SgnNull
                             else Positive)))
           else sgn_numeric Nf ce e))"

fun sgn_of :: "nat \<Rightarrow> engine \<Rightarrow> bexpr \<Rightarrow> sign option" where
  "sgn_of 0 ce e = None"
| "sgn_of (Suc n) ce e =
     sgn_body (\<lambda>x. sgn_of n ce x) (\<lambda>x. canonical n ce x) (\<lambda>x. N n ce x) ce e"

section \<open>MathJSON expressions\<close>

text \<open>
  A number of the language: a rational or \<open>NaN\<close> (the infinities are not
  represented).
\<close>

datatype jsnum = JNaN | JNum rat

text \<open>
  An \<open>Expression\<close>: a number, a string (a symbol name), an array (a head followed
  by operands), or an object \<open>{num}\<close>, \<open>{sym}\<close>, \<open>{str}\<close>, \<open>{fn}\<close>,
  \<open>{dict}\<close> with an optional \<open>latex\<close> entry.
\<close>

datatype expression =
    ENum jsnum
  | EStr string
  | EArr "expression list"
  | ENumObj string "string option"
  | ESymObj string "string option"
  | EStrObj string "string option"
  | EFnObj "expression list" "string option"
  | EDictObj "(string \<times> expression) list" "string option"

text \<open>The backslash.\<close>

definition bs :: string where
  "bs = [CHR 0x5C]"

text \<open>What \<open>if (x)\<close> tests on an expression or \<open>null\<close>: \<open>null\<close>, \<open>0\<close>,
  \<open>NaN\<close> and the empty string are false.\<close>

fun truthy :: "expression option \<Rightarrow> bool" where
  "truthy None = False"
| "truthy (Some (ENum JNaN)) = False"
| "truthy (Some (ENum (JNum n))) = (n \<noteq> 0)"
| "truthy (Some (EStr s)) = (s \<noteq> [])"
| "truthy (Some e) = True"

text \<open>
  Modelled from the spec: the accessors \<open>head\<close>, \<open>ops\<close> (here \<open>ops_expr\<close>),
  \<open>op\<close> and \<open>nops\<close> of \<open>math-json/utils\<close>, on "a nested-array/object serialization of
  expressions (function head + operand array ...)": the head of an array or of a
  \<open>{fn}\<close> object is its first element, its operands the others; anything else has
  no head and no operand.
\<close>

fun head :: "expression option \<Rightarrow> expression option" where
  "head (Some (EArr (h # args))) = Some h"
| "head (Some (EFnObj (h # args) l)) = Some h"
| "head e = None"

fun ops_expr :: "expression option \<Rightarrow> expression list option" where
  "ops_expr (Some (EArr (h # args))) = Some args"
| "ops_expr (Some (EFnObj (h # args) l)) = Some args"
| "ops_expr e = None"

definition nops :: "expression option \<Rightarrow> nat" where
  "nops e = (case ops_expr e of None \<Rightarrow> 0 | Some args \<Rightarrow> length args)"

text \<open>\<open>op(expr, n)\<close>, the operands being counted from 1.\<close>

definition op :: "expression option \<Rightarrow> nat \<Rightarrow> expression option" where
  "op e n =
     (case ops_expr e of
        None \<Rightarrow> None
      | Some args \<Rightarrow> (if 1 \<le> n \<and> n \<le> length args then Some (args ! (n - 1)) else None))"

section \<open>LatexSyntax.parse\<close>

text \<open>
  Modelled from the spec: the token stream of the parser, which "consumes this
  sequence positionally (peek/next/skip-space)": the tokens and the index of the next
  one; \<open>atEnd\<close> when the index is past the last token, \<open>next\<close> returns the token at
  the index and moves on.
\<close>

record parser =
  p_tokens :: "string list"
  p_index :: nat

definition atEnd :: "parser \<Rightarrow> bool" where
  "atEnd p = (length (p_tokens p) \<le> p_index p)"

definition next_token :: "parser \<Rightarrow> string \<times> parser" where
  "next_token p = (p_tokens p ! p_index p, p\<lparr> p_index := Suc (p_index p) \<rparr>)"

text \<open>\<open>while (!parser.atEnd) parser.next()\<close>\<close>

function consume_rest :: "parser \<Rightarrow> parser" where
  "consume_rest p = (if \<not> atEnd p then consume_rest (snd (next_token p)) else p)"
  by pat_completeness auto
termination
  by (relation "measure (\<lambda>p. length (p_tokens p) - p_index p)")
     (auto simp: atEnd_def next_token_def)

text \<open>An infix entry of the dictionary: its name, if any, and its \<open>parse\<close>
  function, which gets the parser, the minimum precedence and the left-hand side and
  returns an expression or \<open>null\<close>, and the parser as it leaves it.\<close>

record infix_entry =
  ie_name :: "string option"
  ie_parse :: "parser \<Rightarrow> nat \<Rightarrow> expression \<Rightarrow> expression option \<times> parser"

text \<open>
  What \<open>parse\<close> uses and the sources at hand do not define: the tokenizer,
  \<open>matchExpression\<close>, \<open>peekDefinitions('infix')\<close> (an array of entries with the
  number of tokens of their trigger, or \<open>null\<close>), \<open>parser.error(code, fromToken)\<close>,
  \<open>tokensToString\<close>, the option \<open>preserveLatex\<close>, and the conversion of a number to
  a string.
\<close>

record latex_syntax =
  ls_tokenize :: "string \<Rightarrow> string list"
  ls_matchExpression :: "parser \<Rightarrow> expression option \<times> parser"
  ls_peekDefinitions_infix :: "parser \<Rightarrow> (infix_entry \<times> nat) list option"
  ls_error :: "parser \<Rightarrow> expression \<Rightarrow> nat \<Rightarrow> expression"
  ls_tokensToString :: "string list \<Rightarrow> string"
  ls_preserveLatex :: bool
  ls_numberToString :: "jsnum \<Rightarrow> string"

datatype js_error = TypeError

text \<open>The error for the tokens left: \<open>unexpected-command\<close> for a token of more
  than one character that starts with a backslash, \<open>unexpected-token\<close>
  otherwise.\<close>

definition unexpected_tag :: "string \<Rightarrow> string" where
  "unexpected_tag token =
     (if length token > 1 \<and> take 1 token = bs then ''unexpected-command''
      else ''unexpected-token'')"

definition unexpected_error :: "latex_syntax \<Rightarrow> parser \<Rightarrow> expression" where
  "unexpected_error ls p =
     (let rest = p_index p;
          (token, p1) = next_token p;
          p2 = consume_rest p1
      in ls_error ls p2
           (EArr [EStr (unexpected_tag token), EStrObj (ls_tokensToString ls [token]) None])
           rest)"

text \<open>The last lines of \<open>parse\<close>: \<open>expr ??= ['Sequence']\<close> and the option
  \<open>preserveLatex\<close>.\<close>

definition preserve_latex :: "latex_syntax \<Rightarrow> string \<Rightarrow> expression option \<Rightarrow> expression" where
  "preserve_latex ls latex expr0 =
     (let expr = (case expr0 of None \<Rightarrow> EArr [EStr ''Sequence''] | Some e \<Rightarrow> e) in
      if ls_preserveLatex ls then
        (case expr of
           EArr xs \<Rightarrow> EFnObj xs (Some latex)
         | ENum n \<Rightarrow> ENumObj (ls_numberToString ls n) (Some latex)
         | EStr s \<Rightarrow> ESymObj s (Some latex)
         | ENumObj s l \<Rightarrow> ENumObj s (Some latex)
         | ESymObj s l \<Rightarrow> ESymObj s (Some latex)
         | EStrObj s l \<Rightarrow> EStrObj s (Some latex)
         | EFnObj xs l \<Rightarrow> EFnObj xs (Some latex)
         | EDictObj kv l \<Rightarrow> EDictObj kv (Some latex))
      else expr)"

text \<open>The end of \<open>parse\<close> when tokens are left and no infix entry took them: the
  error alone when \<open>!expr\<close>, the sequence of the expression and the error
  otherwise.\<close>

definition parse_rest :: "latex_syntax \<Rightarrow> string \<Rightarrow> expression option \<Rightarrow> parser \<Rightarrow> expression" where
  "parse_rest ls latex expr p =
     (let error = unexpected_error ls p in
      preserve_latex ls latex
        (Some (if \<not> truthy expr then error
               else EArr [EStr ''Sequence'', the expr, error])))"

text \<open>
  \<open>parse(latex)\<close>.  When an infix entry is found at the tokens left, the result of
  its \<open>parse\<close>, if true, is returned at once; if not and the entry has a name, the
  function of that name applied to the expression and a \<open>missing\<close> error is
  returned; if not, the index is put back.  Reading \<open>opDefs[0]\<close> of an empty array
  is a TypeError.
\<close>

definition parse :: "latex_syntax \<Rightarrow> string \<Rightarrow> js_error + expression" where
  "parse ls latex =
     (let parser = \<lparr> p_tokens = ls_tokenize ls latex, p_index = 0 \<rparr>;
          (expr, p1) = ls_matchExpression ls parser
      in
        if \<not> atEnd p1 then
          (case ls_peekDefinitions_infix ls p1 of
             None \<Rightarrow> Inr (parse_rest ls latex expr p1)
           | Some [] \<Rightarrow> Inl TypeError
           | Some ((def, n) # opDefs) \<Rightarrow>
               (let start = p_index p1;
                    p2 = p1\<lparr> p_index := start + n \<rparr>;
                    lhs = (case expr of
                             Some e \<Rightarrow> e
                           | None \<Rightarrow> ls_error ls p2 (EStr ''missing'') start);
                    (result, p3) = ie_parse def p2 0 lhs
                in
                  if truthy result then Inr (the result)
                  else
                    (case ie_name def of
                       Some name \<Rightarrow>
                         Inr (EArr [EStr name,
                                    (case expr of
                                       Some e \<Rightarrow> e
                                     | None \<Rightarrow> ls_error ls p3 (EStr ''missing'') start),
                                    ls_error ls p3 (EStr ''missing'') start])
                     | None \<Rightarrow>
                         Inr (parse_rest ls latex expr (p3\<lparr> p_index := start \<rparr>)))))
        else Inr (preserve_latex ls latex expr))"

section \<open>Serializing products\<close>

datatype root_style = Radical | RootQuotient | RootSolidus

datatype fraction_style = Quotient | InlineSolidus | NiceSolidus | Reciprocal | Factor

text \<open>
  The serializer, as far as the functions of the arithmetic dictionary call it.  Its
  class is not part of the sources at hand, so its methods are parameters:
  \<open>serialize\<close>, \<open>wrap\<close> and \<open>wrapShort\<close> (which read the field \<open>level\<close>,
  given here as their first argument), the options \<open>multiply\<close> and
  \<open>invisibleMultiply\<close>, and the functions \<open>getRootStyle\<close>,
  \<open>getFractionStyle\<close>, \<open>joinLatex\<close>, \<open>machineValue\<close>, \<open>rationalValue\<close>
  (\<open>[null, null]\<close> is \<open>None\<close>), \<open>isNumberObject\<close> and \<open>missingIfEmpty\<close>.
\<close>

record serializer =
  s_serialize :: "int \<Rightarrow> expression option \<Rightarrow> string"
  s_wrap :: "int \<Rightarrow> expression option \<Rightarrow> int option \<Rightarrow> string"
  s_wrapShort :: "int \<Rightarrow> expression option \<Rightarrow> string"
  s_multiply :: string
  s_invisibleMultiply :: string
  s_rootStyle :: "expression \<Rightarrow> int \<Rightarrow> root_style"
  s_fractionStyle :: "expression \<Rightarrow> int \<Rightarrow> fraction_style"
  s_joinLatex :: "string list \<Rightarrow> string"
  s_machineValue :: "expression option \<Rightarrow> jsnum option"
  s_rationalValue :: "expression option \<Rightarrow> (jsnum \<times> jsnum) option"
  s_isNumberObject :: "expression \<Rightarrow> bool"
  s_missingIfEmpty :: "expression option \<Rightarrow> expression"

text \<open>\<open>x < 0\<close> and \<open>-x\<close> on numbers; a comparison with \<open>NaN\<close> is false.\<close>

fun js_negative :: "jsnum \<Rightarrow> bool" where
  "js_negative JNaN = False"
| "js_negative (JNum v) = (v < 0)"

fun js_negate :: "jsnum \<Rightarrow> jsnum" where
  "js_negate JNaN = JNaN"
| "js_negate (JNum v) = JNum (- v)"

text \<open>
  \<open>numeratorDenominator\<close>: what one factor \<open>arg\<close> of the product pushes on the
  numerator and on the denominator.
\<close>

definition numeratorDenominator_arg ::
  "serializer \<Rightarrow> expression \<Rightarrow> expression list \<times> expression list" where
  "numeratorDenominator_arg ser arg =
     (if head (Some arg) = Some (EStr ''Power'') then
        (let op1 = op (Some arg) 1;
             op2 = op (Some arg) 2
         in
           if head op2 = Some (EStr ''Negate'') then
             (let b = op op2 1 in
              if truthy op1 \<and> truthy b
              then ([], [EArr [EStr ''Power'', the op1, the b]])
              else ([], []))
           else
             (let exponentVal = (case s_machineValue ser op2 of None \<Rightarrow> JNaN | Some v \<Rightarrow> v) in
              if exponentVal = JNum (- 1) then
                (if truthy op1 then ([], [the op1]) else ([], []))
              else if js_negative exponentVal then
                (if truthy op1
                 then ([], [EArr [EStr ''Power'', the op1, ENum (js_negate exponentVal)]])
                 else ([], []))
              else ([arg], [])))
      else if head (Some arg) = Some (EStr ''Rational'') \<and> nops (Some arg) = 2 then
        (let op1 = the (op (Some arg) 1);
             op2 = the (op (Some arg) 2)
         in ((if s_machineValue ser (Some op1) \<noteq> Some (JNum 1) then [op1] else []),
             (if s_machineValue ser (Some op2) \<noteq> Some (JNum 1) then [op2] else [])))
      else
        (case s_rationalValue ser (Some arg) of
           Some (n, d) \<Rightarrow> ((if n \<noteq> JNum 1 then [ENum n] else []), [ENum d])
         | None \<Rightarrow> ([arg], [])))"

definition numeratorDenominator ::
  "serializer \<Rightarrow> expression \<Rightarrow> expression list \<times> expression list" where
  "numeratorDenominator ser expr =
     (if head (Some expr) \<noteq> Some (EStr ''Multiply'') then ([], [])
      else
        (let args = (case ops_expr (Some expr) of None \<Rightarrow> [] | Some xs \<Rightarrow> xs) in
         (concat (map (\<lambda>arg. fst (numeratorDenominator_arg ser arg)) args),
          concat (map (\<lambda>arg. snd (numeratorDenominator_arg ser arg)) args))))"


text \<open>\<open>serializeFraction\<close>, the \<open>serialize\<close> function of \<open>Divide\<close> and of
  \<open>Rational\<close> with two operands.\<close>

definition serializeFraction :: "serializer \<Rightarrow> int \<Rightarrow> expression option \<Rightarrow> string" where
  "serializeFraction ser level expr =
     (case expr of
        None \<Rightarrow> []
      | Some e \<Rightarrow>
          (let numer = s_missingIfEmpty ser (op expr 1);
               denom = s_missingIfEmpty ser (op expr 2);
               style = s_fractionStyle ser e level
           in
             if style = InlineSolidus \<or> style = NiceSolidus then
               (let numerStr = s_wrapShort ser level (Some numer);
                    denomStr = s_wrapShort ser level (Some denom)
                in
                  if style = InlineSolidus then numerStr @ bs @ ''/'' @ denomStr
                  else ''^{'' @ numerStr @ ''}'' @ bs @ ''!'' @ bs @ ''!/'' @ bs @ ''!_{''
                         @ denomStr @ ''}'')
             else if style = Reciprocal then
               s_wrap ser level (Some numer) None @ s_wrap ser level (Some denom) None @ ''^{-1}''
             else if style = Factor then
               bs @ ''frac{1}{'' @ s_serialize ser level (Some denom) @ ''}''
                 @ s_wrap ser level (Some numer) None
             else
               bs @ ''frac{'' @ s_serialize ser level (Some numer) @ ''}{''
                 @ s_serialize ser level (Some denom) @ ''}''))"




section \<open>Well-formed expressions\<close>

text \<open>
  An expression \<open>returns itself\<close> when its getter \<open>canonical\<close> returns the
  receiver: its \<open>_canonical\<close> is itself, or is not set and the expression is not
  valid (the getter then sets it to the expression); an atom, when the getter of its
  class does so.
\<close>

fun returns_self :: "engine \<Rightarrow> bexpr \<Rightarrow> bool" where
  "returns_self ce (BAtom a) = (atom_canonical ce a = This)"
| "returns_self ce (BFunction h ops c d) =
     (c = Self \<or> (c = Unset \<and> \<not> isValid ce (BFunction h ops c d)))"

fun named_not_Error :: "bhead \<Rightarrow> bool" where
  "named_not_Error (HName s) = (s \<noteq> ''Error'')"
| "named_not_Error (HExpr e) = False"

text \<open>
  The invariant of the objects the engine builds: everywhere in an expression, a
  cached canonical form returns itself, and the operands of a function that is
  marked canonical and has a name other than \<open>Error\<close> for head return themselves.
  (The getter marks an invalid expression canonical as it is; such an expression has
  the head \<open>Error\<close> or an expression for head.)
\<close>

fun well_formed :: "engine \<Rightarrow> bexpr \<Rightarrow> bool"
and well_formed_head :: "engine \<Rightarrow> bhead \<Rightarrow> bool"
and well_formed_cache :: "engine \<Rightarrow> cache \<Rightarrow> bool"
where
  "well_formed ce (BAtom a) = True"
| "well_formed ce (BFunction h ops c d) =
     (well_formed_head ce h \<and> list_all (well_formed ce) ops \<and> well_formed_cache ce c
      \<and> (c = Self \<and> named_not_Error h \<longrightarrow> list_all (returns_self ce) ops))"
| "well_formed_head ce (HName s) = True"
| "well_formed_head ce (HExpr e) = well_formed ce e"
| "well_formed_cache ce Unset = True"
| "well_formed_cache ce Self = True"
| "well_formed_cache ce (Cached r) = (well_formed ce r \<and> returns_self ce r)"



section \<open>Error markers\<close>



section \<open>A small engine\<close>

text \<open>
  An engine with no definitions, used to run the operations on concrete expressions:
  \<open>ce.fn\<close> builds a function expression that is not canonical, an error marker is
  a function with head \<open>Error\<close>, the cost of an expression is the number of its
  nodes, expressions are ordered by their rank, no rule applies, and atoms are valid, pure, canonical and their own value.
\<close>

fun node_count :: "bexpr \<Rightarrow> nat" where
  "node_count (BAtom a) = 1"
| "node_count (BFunction h ops c d) = Suc (sum_list (map node_count ops))"

text \<open>A rank to order expressions by: numbers, then strings, then symbols by the
  length of their names, then functions by their size.\<close>

fun rank :: "bexpr \<Rightarrow> nat" where
  "rank (BAtom (ANumber n)) = 0"
| "rank (BAtom (AString s)) = 1"
| "rank (BAtom (ASymbol s)) = 2 + length s"
| "rank (BFunction h ops c d) = 100 + sum_list (map node_count ops)"

definition example_engine :: engine where
  "example_engine =
     \<lparr> ce_contextNull = False,
       ce_lookupFunction = (\<lambda>s. None),
       ce_fn = (\<lambda>h ops. BFunction (HName h) ops Unset None),
       ce_tuple = (\<lambda>ops. BFunction (HName ''Tuple'') ops Unset None),
       ce_error = (\<lambda>code w. BFunction (HName ''Error'')
                                (case w of None \<Rightarrow> [] | Some x \<Rightarrow> [x]) Unset None),
       ce_costFunction = (\<lambda>e. real (node_count e)),
       ce_iterationLimit = 1024,
       ce_replace = (\<lambda>e. None),
       ce_complexAllowed = True,
       ce_preferBignum = True,
       ce_toNumber = (\<lambda>b. Machine b),
       ce_order = (\<lambda>a b. int (rank a) - int (rank b)),
       ce_domainOf = (\<lambda>e. DomLit ''Anything''),
       ce_isCompatible = (\<lambda>a b. True),
       ce_isImaginary = (\<lambda>e. Some False),
       atom_isValid = (\<lambda>a. True),
       atom_isPure = (\<lambda>a. True),
       atom_canonical = (\<lambda>a. This),
       atom_simplify = (\<lambda>a. BAtom a),
       atom_evaluate = (\<lambda>a. BAtom a),
       atom_N = (\<lambda>a. BAtom a),
       atom_subs = (\<lambda>sub a. BAtom a),
       atom_sgn = (\<lambda>a. SgnUndefined),
       atom_isZero = (\<lambda>a. None),
       atom_asSmallInteger = (\<lambda>a. None),
       atom_match = (\<lambda>a rhs. None) \<rparr>"

text \<open>A definition with no flag and no handler.\<close>

definition plain_def :: "string \<Rightarrow> fdef" where
  "plain_def name =
     \<lparr> d_name = name, d_hold = HoldNone, d_associative = False, d_commutative = False,
       d_idempotent = False, d_involution = False, d_inert = False, d_scoped = False,
       d_pure = None,
       d_signature =
         \<lparr> sig_domain = DomLit ''Function'', sig_canonical = None, sig_simplify = None,
           sig_evaluate = NoEvaluate, sig_N = None \<rparr> \<rparr>"

text \<open>The definition \<open>f\<close> with an \<open>N\<close> handler that returns the complex number
  \<open>1 + 2i\<close>, in an engine whose numeric mode allows neither complex numbers nor
  bignums.\<close>

definition complex_f :: fdef where
  "complex_f =
     (plain_def ''f'')
       \<lparr> d_signature :=
           (d_signature (plain_def ''f''))
             \<lparr> sig_N := Some (\<lambda>args. Some (BAtom (ANumber (ComplexNum 1 2)))) \<rparr> \<rparr>"

definition machine_engine :: engine where
  "machine_engine =
     example_engine
       \<lparr> ce_lookupFunction := (\<lambda>s. if s = ''f'' then Some complex_f else None),
         ce_complexAllowed := False,
         ce_preferBignum := False \<rparr>"

text \<open>An engine in which a number literal is positive and the sign of a symbol is
  not known.\<close>

definition sign_engine :: engine where
  "sign_engine =
     example_engine
       \<lparr> atom_sgn := (\<lambda>a. case a of ANumber n \<Rightarrow> Positive | _ \<Rightarrow> SgnUndefined) \<rparr>"

text \<open>An engine with the commutative definition \<open>Add\<close>, the idempotent
  definition \<open>Abs\<close> and the involution \<open>Negate\<close>, none with a \<open>canonical\<close>
  handler.\<close>

definition flag_engine :: engine where
  "flag_engine =
     example_engine
       \<lparr> ce_lookupFunction :=
           (\<lambda>s. if s = ''Add'' then Some ((plain_def ''Add'')\<lparr> d_commutative := True \<rparr>)
                 else if s = ''Abs'' then Some ((plain_def ''Abs'')\<lparr> d_idempotent := True \<rparr>)
                 else if s = ''Negate'' then Some ((plain_def ''Negate'')\<lparr> d_involution := True \<rparr>)
                 else None) \<rparr>"

text \<open>
  An engine with the definitions \<open>f\<close> and \<open>g\<close> and one rule, which rewrites
  \<open>g(x, y, z)\<close>, of four nodes, into \<open>f(x, y)\<close>, of three.
\<close>

definition rewrite_engine :: engine where
  "rewrite_engine =
     example_engine
       \<lparr> ce_lookupFunction :=
           (\<lambda>s. if s = ''f'' then Some (plain_def ''f'')
                 else if s = ''g'' then Some (plain_def ''g'') else None),
         ce_replace :=
           (\<lambda>e. if e = BFunction (HName ''g'')
                           [BAtom (ASymbol ''x''), BAtom (ASymbol ''y''), BAtom (ASymbol ''z'')]
                           Self (Some ''g'')
                 then Some (BFunction (HName ''f'')
                              [BAtom (ASymbol ''x''), BAtom (ASymbol ''y'')] Self (Some ''f''))
                 else None) \<rparr>"

text \<open>
  An engine with the definition \<open>f\<close>, which holds all its operands but the first
  and whose \<open>evaluate\<close> handler returns the list of the operands it is given, and in
  which the value of a symbol is the string of its name.
\<close>

definition hold_f :: fdef where
  "hold_f =
     (plain_def ''f'')
       \<lparr> d_hold := HoldRest,
         d_signature :=
           (d_signature (plain_def ''f''))
             \<lparr> sig_evaluate :=
                 EvaluateFn (\<lambda>args. Some (BFunction (HName ''List'') args Unset None)) \<rparr> \<rparr>"

definition hold_engine :: engine where
  "hold_engine =
     example_engine
       \<lparr> ce_lookupFunction :=
           (\<lambda>s. if s = ''f'' then Some hold_f
                 else if s = ''Hold'' then Some (plain_def ''Hold'')
                 else if s = ''ReleaseHold'' then Some (plain_def ''ReleaseHold'')
                 else None),
         atom_evaluate := (\<lambda>a. case a of ASymbol s \<Rightarrow> BAtom (AString s) | _ \<Rightarrow> BAtom a) \<rparr>"

section \<open>A small LaTeX syntax\<close>

text \<open>
  A syntax to run \<open>parse\<close> on concrete strings: a token is one character, a primary
  expression is a digit or the letter \<open>x\<close>, the only infix entry is \<open>Add\<close> at the
  token \<open>+\<close>, whose parser wants a primary expression on the right, and an error is
  the function \<open>Error\<close> of its code.
\<close>

definition example_primary :: "parser \<Rightarrow> expression option \<times> parser" where
  "example_primary p =
     (if atEnd p then (None, p)
      else if p_tokens p ! p_index p = ''x'' then (Some (EStr ''x''), p\<lparr> p_index := Suc (p_index p) \<rparr>)
      else if p_tokens p ! p_index p = ''0'' then (Some (ENum (JNum 0)), p\<lparr> p_index := Suc (p_index p) \<rparr>)
      else if p_tokens p ! p_index p = ''1'' then (Some (ENum (JNum 1)), p\<lparr> p_index := Suc (p_index p) \<rparr>)
      else (None, p))"

definition example_Add :: infix_entry where
  "example_Add =
     \<lparr> ie_name = Some ''Add'',
       ie_parse = (\<lambda>p minPrec lhs.
          case example_primary p of
            (None, p') \<Rightarrow> (None, p')
          | (Some rhs, p') \<Rightarrow> (Some (EArr [EStr ''Add'', lhs, rhs]), p')) \<rparr>"

definition example_syntax :: latex_syntax where
  "example_syntax =
     \<lparr> ls_tokenize = map (\<lambda>c. [c]),
       ls_matchExpression = example_primary,
       ls_peekDefinitions_infix =
         (\<lambda>p. if \<not> atEnd p \<and> p_tokens p ! p_index p = ''+'' then Some [(example_Add, 1)]
               else None),
       ls_error = (\<lambda>p code start. EArr [EStr ''Error'', code]),
       ls_tokensToString = concat,
       ls_preserveLatex = False,
       ls_numberToString = (\<lambda>n. '''') \<rparr>"

section \<open>A small serializer\<close>

text \<open>
  A serializer to run the functions on concrete expressions.  \<open>base_serializer\<close>
  writes a natural number in digits and a symbol by its name; the machine value of an
  expression is the number it is; \<open>rationalValue\<close> reads \<open>Rational\<close> and
  \<open>Divide\<close> of two numbers; fractions are in the style \<open>quotient\<close>.
  \<open>example_serializer\<close> also dispatches \<open>Divide\<close> to \<open>serializeFraction\<close>, as
  the dictionary entry of \<open>Divide\<close> says.
\<close>

definition base_serialize :: "int \<Rightarrow> expression option \<Rightarrow> string" where
  "base_serialize level e =
     (case e of
        Some (ENum (JNum q)) \<Rightarrow> (if 0 \<le> q \<and> q = of_int \<lfloor>q\<rfloor> then show_nat (nat \<lfloor>q\<rfloor>) else [])
      | Some (EStr s) \<Rightarrow> s
      | _ \<Rightarrow> [])"

definition base_serializer :: serializer where
  "base_serializer =
     \<lparr> s_serialize = base_serialize,
       s_wrap = (\<lambda>level e prec. base_serialize level e),
       s_wrapShort = base_serialize,
       s_multiply = bs @ ''times'',
       s_invisibleMultiply = [],
       s_rootStyle = (\<lambda>e level. Radical),
       s_fractionStyle = (\<lambda>e level. Quotient),
       s_joinLatex = concat,
       s_machineValue = (\<lambda>e. case e of Some (ENum n) \<Rightarrow> Some n | _ \<Rightarrow> None),
       s_rationalValue =
         (\<lambda>e. case e of
                 Some (EArr [EStr h, ENum n, ENum d]) \<Rightarrow>
                   (if h = ''Rational'' \<or> h = ''Divide'' then Some (n, d) else None)
               | _ \<Rightarrow> None),
       s_isNumberObject = (\<lambda>e. case e of ENumObj s l \<Rightarrow> True | _ \<Rightarrow> False),
       s_missingIfEmpty =
         (\<lambda>e. case e of None \<Rightarrow> EArr [EStr ''Error'', EStr ''missing''] | Some x \<Rightarrow> x) \<rparr>"

definition example_serializer :: serializer where
  "example_serializer =
     base_serializer
       \<lparr> s_serialize :=
           (\<lambda>level e. if head e = Some (EStr ''Divide'')
                       then serializeFraction base_serializer (level + 1) e
                       else base_serialize level e) \<rparr>"


section \<open>The small engine, field by field\<close>

lemma example_engine_sel [simp]:
  "ce_contextNull example_engine = False"
  "ce_lookupFunction example_engine s = None"
  "ce_fn example_engine h ops = BFunction (HName h) ops Unset None"
  "ce_tuple example_engine ops = BFunction (HName ''Tuple'') ops Unset None"
  "ce_error example_engine code w =
     BFunction (HName ''Error'') (case w of None \<Rightarrow> [] | Some x \<Rightarrow> [x]) Unset None"
  "ce_costFunction example_engine e = real (node_count e)"
  "ce_iterationLimit example_engine = 1024"
  "ce_replace example_engine e = None"
  "ce_complexAllowed example_engine = True"
  "ce_preferBignum example_engine = True"
  "ce_toNumber example_engine b = Machine b"
  "ce_order example_engine x y = int (rank x) - int (rank y)"
  "ce_domainOf example_engine e = DomLit ''Anything''"
  "ce_isCompatible example_engine dx dy = True"
  "ce_isImaginary example_engine e = Some False"
  "atom_isValid example_engine a = True"
  "atom_isPure example_engine a = True"
  "atom_canonical example_engine a = This"
  "atom_simplify example_engine a = BAtom a"
  "atom_evaluate example_engine a = BAtom a"
  "atom_N example_engine a = BAtom a"
  "atom_subs example_engine sub a = BAtom a"
  "atom_sgn example_engine a = SgnUndefined"
  "atom_isZero example_engine a = None"
  "atom_asSmallInteger example_engine a = None"
  "atom_match example_engine a rhs = None"
  by (simp_all add: example_engine_def)

lemma plain_def_sel [simp]:
  "d_name (plain_def name) = name"
  "d_hold (plain_def name) = HoldNone"
  "d_associative (plain_def name) = False"
  "d_commutative (plain_def name) = False"
  "d_idempotent (plain_def name) = False"
  "d_involution (plain_def name) = False"
  "d_inert (plain_def name) = False"
  "d_scoped (plain_def name) = False"
  "d_pure (plain_def name) = None"
  "sig_domain (d_signature (plain_def name)) = DomLit ''Function''"
  "sig_canonical (d_signature (plain_def name)) = None"
  "sig_simplify (d_signature (plain_def name)) = None"
  "sig_evaluate (d_signature (plain_def name)) = NoEvaluate"
  "sig_N (d_signature (plain_def name)) = None"
  by (simp_all add: plain_def_def)

text \<open>One step of \<open>makeCanonicalFunction\<close> on a named head and of the getter
  \<open>canonical\<close>.\<close>

lemma makeCanonicalFunction_named:
  "makeCanonicalFunction (Suc n) ce (HName s) ops =
     (case those (map (canonical n ce) ops) of
        None \<Rightarrow> None
      | Some cops \<Rightarrow> makeCanonicalFunction_resolved ce (HName s) (flattenSequence cops))"
  by (simp add: makeCanonicalFunction_body_def canonical_def[abs_def] split: option.splits)

lemma canonical_Suc:
  "canonical (Suc n) ce e =
     map_option (deref e) (canonical_get_body (\<lambda>h ops. makeCanonicalFunction n ce h ops) ce e)"
  by (simp add: canonical_def)

section \<open>holdMap: Hold, ReleaseHold and dropped operands\<close>

lemma holdMap_loop_those:
  "holdMap_loop skip count f i xs result =
     map_option (\<lambda>rs. result @ concat rs)
       (those (map (\<lambda>(i, x).
          if head_of x = HName ''Hold'' then Some [op1 x]
          else if head_of x = HName ''ReleaseHold'' then
            map_option (\<lambda>r. case r of None \<Rightarrow> [] | Some v \<Rightarrow> [v]) (f (op1 x))
          else if applicable skip count (int i) then
            map_option (\<lambda>r. case r of None \<Rightarrow> [] | Some v \<Rightarrow> [v]) (f x)
          else Some [x]) (enumerate i xs)))"
proof (induction xs arbitrary: i result)
  case Nil
  then show ?case by simp
next
  case (Cons x xs)
  show ?case
    by (simp add: Cons.IH option.map_comp comp_def split: option.splits)
qed

lemma holdMap_those:
  "holdMap h xs skip associative f =
     (let xs' = (if associative then flattenOps_or xs h else xs) in
      map_option (\<lambda>rs. if associative then flattenOps_or (concat rs) h else concat rs)
        (those (map (\<lambda>(i, x).
           if head_of x = HName ''Hold'' then Some [op1 x]
           else if head_of x = HName ''ReleaseHold'' then
             map_option (\<lambda>r. case r of None \<Rightarrow> [] | Some v \<Rightarrow> [v]) (f (op1 x))
           else if applicable skip (int (length xs') - 1) (int i) then
             map_option (\<lambda>r. case r of None \<Rightarrow> [] | Some v \<Rightarrow> [v]) (f x)
           else Some [x]) (enumerate 0 xs'))))"
proof (cases "xs = []")
  case True
  then show ?thesis
    by (simp add: holdMap_def flattenOps_or_def flattenOps_def)
next
  case False
  then show ?thesis
    unfolding holdMap_def Let_def holdMap_loop_those
    by (simp add: option.map_comp comp_def split: option.splits)
qed

lemma canonical_fold:
  "(\<lambda>x. map_option (deref x) (canonical_get n ce x)) = canonical n ce"
  by (simp add: canonical_def fun_eq_iff)

lemma simplify_uses_holdMap:
  assumes valid: "isValid ce (BFunction (HName hn) ops Self d)"
    and def: "functionDefinition ce (BFunction (HName hn) ops Self d) = Some df"
  shows "simplify (Suc n) ce (BFunction (HName hn) ops Self d) =
           (case holdMap (d_name df) ops (d_hold df) (d_associative df)
                   (\<lambda>x. map_option Some (simplify n ce x)) of
              None \<Rightarrow> None
            | Some tail \<Rightarrow>
                (case simplify_handler (canonical n ce) ce (BFunction (HName hn) ops Self d) tail of
                   None \<Rightarrow> None
                 | Some handled \<Rightarrow>
                     (case (case handled of
                              Some x \<Rightarrow> Some x
                            | None \<Rightarrow> canonical n ce (ce_fn ce hn tail)) of
                        None \<Rightarrow> None
                      | Some expr \<Rightarrow> Some (simplify_loop ce expr 0))))"
  unfolding simplify.simps canonical_fold simplify_body_def hold_tail_def
  by (simp only: bexpr.case valid def isCanonical.simps option.case bhead.case simp_thms
        if_False)

lemma evaluate_uses_holdMap:
  assumes valid: "isValid ce (BFunction (HName hn) ops Self d)"
    and def: "functionDefinition ce (BFunction (HName hn) ops Self d) = Some df"
  shows "evaluate (Suc n) ce (BFunction (HName hn) ops Self d) =
           (case holdMap (d_name df) ops (d_hold df) (d_associative df)
                   (\<lambda>x. map_option Some (evaluate n ce x)) of
              None \<Rightarrow> None
            | Some tail \<Rightarrow>
                (if d_inert df
                 then Some (case tail of [] \<Rightarrow> BFunction (HName hn) ops Self d | t # ts \<Rightarrow> t)
                 else
                   (case sig_evaluate (d_signature df) of
                      NoEvaluate \<Rightarrow> canonical n ce (ce_fn ce hn tail)
                    | EvaluateLambda l \<Rightarrow>
                        (case subs n ce (lambda_subs ce tail) l of
                           None \<Rightarrow> None
                         | Some r \<Rightarrow> evaluate n ce r)
                    | EvaluateFn handler \<Rightarrow>
                        (case handler tail of
                           Some r \<Rightarrow> Some r
                         | None \<Rightarrow> canonical n ce (ce_fn ce hn tail)))))"
  unfolding evaluate.simps canonical_fold evaluate_body_def hold_tail_def
  by (simp only: bexpr.case valid def isCanonical.simps option.case bhead.case simp_thms
        if_False)

lemma N_uses_holdMap:
  assumes valid: "isValid ce (BFunction (HName hn) ops Self d)"
    and def: "functionDefinition ce (BFunction (HName hn) ops Self d) = Some df"
  shows "N (Suc n) ce (BFunction (HName hn) ops Self d) =
           (case holdMap (d_name df) ops (d_hold df) (d_associative df)
                   (\<lambda>x. map_option Some (N n ce x)) of
              None \<Rightarrow> None
            | Some tail \<Rightarrow>
                (if d_inert df
                 then Some (case tail of [] \<Rightarrow> BFunction (HName hn) ops Self d | t # ts \<Rightarrow> t)
                 else
                   (case (case N_handler df tail of
                            Some r \<Rightarrow> Some r
                          | None \<Rightarrow> evaluate n ce (ce_fn ce hn tail)) of
                      None \<Rightarrow> None
                    | Some result \<Rightarrow> Some (N_result ce result))))"
  unfolding N.simps canonical_fold N_body_def hold_tail_def
  by (simp only: bexpr.case valid def isCanonical.simps option.case bhead.case simp_thms
        if_False)


lemma lambda_head_uses_holdMap:
  assumes valid: "isValid ce (BFunction (HExpr he) ops Self d)"
  shows "simplify (Suc n) ce (BFunction (HExpr he) ops Self d) =
           (case (case functionDefinition ce (BFunction (HExpr he) ops Self d) of
                    Some df \<Rightarrow>
                      holdMap (d_name df) ops (d_hold df) (d_associative df)
                        (\<lambda>x. map_option Some (simplify n ce x))
                  | None \<Rightarrow>
                      holdMap [] ops HoldNone False (\<lambda>x. map_option Some (simplify n ce x))) of
              None \<Rightarrow> None
            | Some tail \<Rightarrow>
                (case subs n ce (lambda_subs ce tail) he of
                   None \<Rightarrow> None
                 | Some l \<Rightarrow> simplify n ce l))"
    and "evaluate (Suc n) ce (BFunction (HExpr he) ops Self d) =
           (case (case functionDefinition ce (BFunction (HExpr he) ops Self d) of
                    Some df \<Rightarrow>
                      holdMap (d_name df) ops (d_hold df) (d_associative df)
                        (\<lambda>x. map_option Some (evaluate n ce x))
                  | None \<Rightarrow>
                      holdMap [] ops HoldNone False (\<lambda>x. map_option Some (evaluate n ce x))) of
              None \<Rightarrow> None
            | Some tail \<Rightarrow>
                (case subs n ce (lambda_subs ce tail) he of
                   None \<Rightarrow> None
                 | Some l \<Rightarrow> evaluate n ce l))"
    and "N (Suc n) ce (BFunction (HExpr he) ops Self d) =
           (case (case functionDefinition ce (BFunction (HExpr he) ops Self d) of
                    Some df \<Rightarrow>
                      holdMap (d_name df) ops (d_hold df) (d_associative df)
                        (\<lambda>x. map_option Some (N n ce x))
                  | None \<Rightarrow>
                      holdMap [] ops HoldNone False (\<lambda>x. map_option Some (N n ce x))) of
              None \<Rightarrow> None
            | Some tail \<Rightarrow>
                (case subs n ce (lambda_subs ce tail) he of
                   None \<Rightarrow> None
                 | Some l \<Rightarrow> N n ce l))"
  unfolding simplify.simps evaluate.simps N.simps simplify_body_def evaluate_body_def N_body_def
    hold_tail_def
  by (simp_all only: bexpr.case valid isCanonical.simps option.case bhead.case simp_thms
        if_False)

text \<open>
  C10.  For every operand list, hold policy and operation \<open>f\<close>, \<open>holdMap\<close> makes
  its result operand by operand, in order: an operand with head \<open>Hold\<close> contributes
  its first operand, to which \<open>f\<close> is not applied; an operand with head
  \<open>ReleaseHold\<close> contributes \<open>f\<close> of its first operand, whatever the hold policy
  says of its position; any other operand contributes \<open>f\<close> of itself when the policy
  applies the operation at its index, and itself otherwise; where \<open>f\<close> returns
  \<open>null\<close> nothing is contributed; and \<open>holdMap\<close> returns when every call of
  \<open>f\<close> it makes does.  For an associative head the operands are flattened before
  and the result after.
  And \<open>simplify\<close>, \<open>evaluate\<close> and \<open>N\<close> of a canonical, valid function
  with a named head go on with the list \<open>holdMap\<close> makes of their operands, with
  the hold policy of the definition and themselves as operation; of a canonical, valid
  function whose head is an expression, they apply the head to that list, made with
  the policy of its definition, or with the policy \<open>none\<close> when it has none.
\<close>

theorem holdMap_operands:
  "holdMap h xs skip associative f =
     (let xs' = (if associative then flattenOps_or xs h else xs) in
      map_option (\<lambda>rs. if associative then flattenOps_or (concat rs) h else concat rs)
        (those (map (\<lambda>(i, x).
           if head_of x = HName ''Hold'' then Some [op1 x]
           else if head_of x = HName ''ReleaseHold'' then
             map_option (\<lambda>r. case r of None \<Rightarrow> [] | Some v \<Rightarrow> [v]) (f (op1 x))
           else if applicable skip (int (length xs') - 1) (int i) then
             map_option (\<lambda>r. case r of None \<Rightarrow> [] | Some v \<Rightarrow> [v]) (f x)
           else Some [x]) (enumerate 0 xs'))))
   \<and> (isValid ce (BFunction (HName hn) ops Self d)
        \<and> functionDefinition ce (BFunction (HName hn) ops Self d) = Some df
      \<longrightarrow>
        simplify (Suc n) ce (BFunction (HName hn) ops Self d) =
           (case holdMap (d_name df) ops (d_hold df) (d_associative df)
                   (\<lambda>x. map_option Some (simplify n ce x)) of
              None \<Rightarrow> None
            | Some tail \<Rightarrow>
                (case simplify_handler (canonical n ce) ce (BFunction (HName hn) ops Self d) tail of
                   None \<Rightarrow> None
                 | Some handled \<Rightarrow>
                     (case (case handled of
                              Some x \<Rightarrow> Some x
                            | None \<Rightarrow> canonical n ce (ce_fn ce hn tail)) of
                        None \<Rightarrow> None
                      | Some expr \<Rightarrow> Some (simplify_loop ce expr 0))))
        \<and> evaluate (Suc n) ce (BFunction (HName hn) ops Self d) =
           (case holdMap (d_name df) ops (d_hold df) (d_associative df)
                   (\<lambda>x. map_option Some (evaluate n ce x)) of
              None \<Rightarrow> None
            | Some tail \<Rightarrow>
                (if d_inert df
                 then Some (case tail of [] \<Rightarrow> BFunction (HName hn) ops Self d | t # ts \<Rightarrow> t)
                 else
                   (case sig_evaluate (d_signature df) of
                      NoEvaluate \<Rightarrow> canonical n ce (ce_fn ce hn tail)
                    | EvaluateLambda l \<Rightarrow>
                        (case subs n ce (lambda_subs ce tail) l of
                           None \<Rightarrow> None
                         | Some r \<Rightarrow> evaluate n ce r)
                    | EvaluateFn handler \<Rightarrow>
                        (case handler tail of
                           Some r \<Rightarrow> Some r
                         | None \<Rightarrow> canonical n ce (ce_fn ce hn tail)))))
        \<and> N (Suc n) ce (BFunction (HName hn) ops Self d) =
           (case holdMap (d_name df) ops (d_hold df) (d_associative df)
                   (\<lambda>x. map_option Some (N n ce x)) of
              None \<Rightarrow> None
            | Some tail \<Rightarrow>
                (if d_inert df
                 then Some (case tail of [] \<Rightarrow> BFunction (HName hn) ops Self d | t # ts \<Rightarrow> t)
                 else
                   (case (case N_handler df tail of
                            Some r \<Rightarrow> Some r
                          | None \<Rightarrow> evaluate n ce (ce_fn ce hn tail)) of
                      None \<Rightarrow> None
                    | Some result \<Rightarrow> Some (N_result ce result)))))
   \<and> (isValid ce (BFunction (HExpr he) ops Self d)
      \<longrightarrow>
        simplify (Suc n) ce (BFunction (HExpr he) ops Self d) =
           (case (case functionDefinition ce (BFunction (HExpr he) ops Self d) of
                    Some df \<Rightarrow>
                      holdMap (d_name df) ops (d_hold df) (d_associative df)
                        (\<lambda>x. map_option Some (simplify n ce x))
                  | None \<Rightarrow>
                      holdMap [] ops HoldNone False (\<lambda>x. map_option Some (simplify n ce x))) of
              None \<Rightarrow> None
            | Some tail \<Rightarrow>
                (case subs n ce (lambda_subs ce tail) he of
                   None \<Rightarrow> None
                 | Some l \<Rightarrow> simplify n ce l))
        \<and> evaluate (Suc n) ce (BFunction (HExpr he) ops Self d) =
           (case (case functionDefinition ce (BFunction (HExpr he) ops Self d) of
                    Some df \<Rightarrow>
                      holdMap (d_name df) ops (d_hold df) (d_associative df)
                        (\<lambda>x. map_option Some (evaluate n ce x))
                  | None \<Rightarrow>
                      holdMap [] ops HoldNone False (\<lambda>x. map_option Some (evaluate n ce x))) of
              None \<Rightarrow> None
            | Some tail \<Rightarrow>
                (case subs n ce (lambda_subs ce tail) he of
                   None \<Rightarrow> None
                 | Some l \<Rightarrow> evaluate n ce l))
        \<and> N (Suc n) ce (BFunction (HExpr he) ops Self d) =
           (case (case functionDefinition ce (BFunction (HExpr he) ops Self d) of
                    Some df \<Rightarrow>
                      holdMap (d_name df) ops (d_hold df) (d_associative df)
                        (\<lambda>x. map_option Some (N n ce x))
                  | None \<Rightarrow>
                      holdMap [] ops HoldNone False (\<lambda>x. map_option Some (N n ce x))) of
              None \<Rightarrow> None
            | Some tail \<Rightarrow>
                (case subs n ce (lambda_subs ce tail) he of
                   None \<Rightarrow> None
                 | Some l \<Rightarrow> N n ce l)))"
proof (rule conjI[OF holdMap_those conjI])
  show "isValid ce (BFunction (HExpr he) ops Self d)
      \<longrightarrow>
        simplify (Suc n) ce (BFunction (HExpr he) ops Self d) =
           (case (case functionDefinition ce (BFunction (HExpr he) ops Self d) of
                    Some df \<Rightarrow>
                      holdMap (d_name df) ops (d_hold df) (d_associative df)
                        (\<lambda>x. map_option Some (simplify n ce x))
                  | None \<Rightarrow>
                      holdMap [] ops HoldNone False (\<lambda>x. map_option Some (simplify n ce x))) of
              None \<Rightarrow> None
            | Some tail \<Rightarrow>
                (case subs n ce (lambda_subs ce tail) he of
                   None \<Rightarrow> None
                 | Some l \<Rightarrow> simplify n ce l))
        \<and> evaluate (Suc n) ce (BFunction (HExpr he) ops Self d) =
           (case (case functionDefinition ce (BFunction (HExpr he) ops Self d) of
                    Some df \<Rightarrow>
                      holdMap (d_name df) ops (d_hold df) (d_associative df)
                        (\<lambda>x. map_option Some (evaluate n ce x))
                  | None \<Rightarrow>
                      holdMap [] ops HoldNone False (\<lambda>x. map_option Some (evaluate n ce x))) of
              None \<Rightarrow> None
            | Some tail \<Rightarrow>
                (case subs n ce (lambda_subs ce tail) he of
                   None \<Rightarrow> None
                 | Some l \<Rightarrow> evaluate n ce l))
        \<and> N (Suc n) ce (BFunction (HExpr he) ops Self d) =
           (case (case functionDefinition ce (BFunction (HExpr he) ops Self d) of
                    Some df \<Rightarrow>
                      holdMap (d_name df) ops (d_hold df) (d_associative df)
                        (\<lambda>x. map_option Some (N n ce x))
                  | None \<Rightarrow>
                      holdMap [] ops HoldNone False (\<lambda>x. map_option Some (N n ce x))) of
              None \<Rightarrow> None
            | Some tail \<Rightarrow>
                (case subs n ce (lambda_subs ce tail) he of
                   None \<Rightarrow> None
                 | Some l \<Rightarrow> N n ce l))"
  proof
    assume valid: "isValid ce (BFunction (HExpr he) ops Self d)"
    show "simplify (Suc n) ce (BFunction (HExpr he) ops Self d) =
           (case (case functionDefinition ce (BFunction (HExpr he) ops Self d) of
                    Some df \<Rightarrow>
                      holdMap (d_name df) ops (d_hold df) (d_associative df)
                        (\<lambda>x. map_option Some (simplify n ce x))
                  | None \<Rightarrow>
                      holdMap [] ops HoldNone False (\<lambda>x. map_option Some (simplify n ce x))) of
              None \<Rightarrow> None
            | Some tail \<Rightarrow>
                (case subs n ce (lambda_subs ce tail) he of
                   None \<Rightarrow> None
                 | Some l \<Rightarrow> simplify n ce l))
        \<and> evaluate (Suc n) ce (BFunction (HExpr he) ops Self d) =
           (case (case functionDefinition ce (BFunction (HExpr he) ops Self d) of
                    Some df \<Rightarrow>
                      holdMap (d_name df) ops (d_hold df) (d_associative df)
                        (\<lambda>x. map_option Some (evaluate n ce x))
                  | None \<Rightarrow>
                      holdMap [] ops HoldNone False (\<lambda>x. map_option Some (evaluate n ce x))) of
              None \<Rightarrow> None
            | Some tail \<Rightarrow>
                (case subs n ce (lambda_subs ce tail) he of
                   None \<Rightarrow> None
                 | Some l \<Rightarrow> evaluate n ce l))
        \<and> N (Suc n) ce (BFunction (HExpr he) ops Self d) =
           (case (case functionDefinition ce (BFunction (HExpr he) ops Self d) of
                    Some df \<Rightarrow>
                      holdMap (d_name df) ops (d_hold df) (d_associative df)
                        (\<lambda>x. map_option Some (N n ce x))
                  | None \<Rightarrow>
                      holdMap [] ops HoldNone False (\<lambda>x. map_option Some (N n ce x))) of
              None \<Rightarrow> None
            | Some tail \<Rightarrow>
                (case subs n ce (lambda_subs ce tail) he of
                   None \<Rightarrow> None
                 | Some l \<Rightarrow> N n ce l))"
      by (rule conjI[OF lambda_head_uses_holdMap(1)[OF valid]
                   conjI[OF lambda_head_uses_holdMap(2)[OF valid]
                            lambda_head_uses_holdMap(3)[OF valid]]])
  qed
next
  show "isValid ce (BFunction (HName hn) ops Self d)
        \<and> functionDefinition ce (BFunction (HName hn) ops Self d) = Some df
      \<longrightarrow>
        simplify (Suc n) ce (BFunction (HName hn) ops Self d) =
           (case holdMap (d_name df) ops (d_hold df) (d_associative df)
                   (\<lambda>x. map_option Some (simplify n ce x)) of
              None \<Rightarrow> None
            | Some tail \<Rightarrow>
                (case simplify_handler (canonical n ce) ce (BFunction (HName hn) ops Self d) tail of
                   None \<Rightarrow> None
                 | Some handled \<Rightarrow>
                     (case (case handled of
                              Some x \<Rightarrow> Some x
                            | None \<Rightarrow> canonical n ce (ce_fn ce hn tail)) of
                        None \<Rightarrow> None
                      | Some expr \<Rightarrow> Some (simplify_loop ce expr 0))))
        \<and> evaluate (Suc n) ce (BFunction (HName hn) ops Self d) =
           (case holdMap (d_name df) ops (d_hold df) (d_associative df)
                   (\<lambda>x. map_option Some (evaluate n ce x)) of
              None \<Rightarrow> None
            | Some tail \<Rightarrow>
                (if d_inert df
                 then Some (case tail of [] \<Rightarrow> BFunction (HName hn) ops Self d | t # ts \<Rightarrow> t)
                 else
                   (case sig_evaluate (d_signature df) of
                      NoEvaluate \<Rightarrow> canonical n ce (ce_fn ce hn tail)
                    | EvaluateLambda l \<Rightarrow>
                        (case subs n ce (lambda_subs ce tail) l of
                           None \<Rightarrow> None
                         | Some r \<Rightarrow> evaluate n ce r)
                    | EvaluateFn handler \<Rightarrow>
                        (case handler tail of
                           Some r \<Rightarrow> Some r
                         | None \<Rightarrow> canonical n ce (ce_fn ce hn tail)))))
        \<and> N (Suc n) ce (BFunction (HName hn) ops Self d) =
           (case holdMap (d_name df) ops (d_hold df) (d_associative df)
                   (\<lambda>x. map_option Some (N n ce x)) of
              None \<Rightarrow> None
            | Some tail \<Rightarrow>
                (if d_inert df
                 then Some (case tail of [] \<Rightarrow> BFunction (HName hn) ops Self d | t # ts \<Rightarrow> t)
                 else
                   (case (case N_handler df tail of
                            Some r \<Rightarrow> Some r
                          | None \<Rightarrow> evaluate n ce (ce_fn ce hn tail)) of
                      None \<Rightarrow> None
                    | Some result \<Rightarrow> Some (N_result ce result))))"
  proof (intro impI, elim conjE)
  assume valid: "isValid ce (BFunction (HName hn) ops Self d)"
    and def: "functionDefinition ce (BFunction (HName hn) ops Self d) = Some df"
  show "simplify (Suc n) ce (BFunction (HName hn) ops Self d) =
           (case holdMap (d_name df) ops (d_hold df) (d_associative df)
                   (\<lambda>x. map_option Some (simplify n ce x)) of
              None \<Rightarrow> None
            | Some tail \<Rightarrow>
                (case simplify_handler (canonical n ce) ce (BFunction (HName hn) ops Self d) tail of
                   None \<Rightarrow> None
                 | Some handled \<Rightarrow>
                     (case (case handled of
                              Some x \<Rightarrow> Some x
                            | None \<Rightarrow> canonical n ce (ce_fn ce hn tail)) of
                        None \<Rightarrow> None
                      | Some expr \<Rightarrow> Some (simplify_loop ce expr 0))))
        \<and> evaluate (Suc n) ce (BFunction (HName hn) ops Self d) =
           (case holdMap (d_name df) ops (d_hold df) (d_associative df)
                   (\<lambda>x. map_option Some (evaluate n ce x)) of
              None \<Rightarrow> None
            | Some tail \<Rightarrow>
                (if d_inert df
                 then Some (case tail of [] \<Rightarrow> BFunction (HName hn) ops Self d | t # ts \<Rightarrow> t)
                 else
                   (case sig_evaluate (d_signature df) of
                      NoEvaluate \<Rightarrow> canonical n ce (ce_fn ce hn tail)
                    | EvaluateLambda l \<Rightarrow>
                        (case subs n ce (lambda_subs ce tail) l of
                           None \<Rightarrow> None
                         | Some r \<Rightarrow> evaluate n ce r)
                    | EvaluateFn handler \<Rightarrow>
                        (case handler tail of
                           Some r \<Rightarrow> Some r
                         | None \<Rightarrow> canonical n ce (ce_fn ce hn tail)))))
        \<and> N (Suc n) ce (BFunction (HName hn) ops Self d) =
           (case holdMap (d_name df) ops (d_hold df) (d_associative df)
                   (\<lambda>x. map_option Some (N n ce x)) of
              None \<Rightarrow> None
            | Some tail \<Rightarrow>
                (if d_inert df
                 then Some (case tail of [] \<Rightarrow> BFunction (HName hn) ops Self d | t # ts \<Rightarrow> t)
                 else
                   (case (case N_handler df tail of
                            Some r \<Rightarrow> Some r
                          | None \<Rightarrow> evaluate n ce (ce_fn ce hn tail)) of
                      None \<Rightarrow> None
                    | Some result \<Rightarrow> Some (N_result ce result))))"
    by (rule conjI[OF simplify_uses_holdMap[OF valid def]
                 conjI[OF evaluate_uses_holdMap[OF valid def] N_uses_holdMap[OF valid def]]])
  qed
qed

lemma hold_engine_sel:
  "ce_lookupFunction hold_engine ''f'' = Some hold_f"
  "ce_lookupFunction hold_engine ''Hold'' = Some (plain_def ''Hold'')"
  "ce_lookupFunction hold_engine ''ReleaseHold'' = Some (plain_def ''ReleaseHold'')"
  "atom_isValid hold_engine a = True"
  "atom_evaluate hold_engine (ASymbol s) = BAtom (AString s)"
  by (simp_all add: hold_engine_def)

lemma hold_f_sel:
  "d_name hold_f = ''f''"
  "d_hold hold_f = HoldRest"
  "d_associative hold_f = False"
  "d_inert hold_f = False"
  "sig_evaluate (d_signature hold_f)
     = EvaluateFn (\<lambda>args. Some (BFunction (HName ''List'') args Unset None))"
  by (simp_all add: hold_f_def)

text \<open>
  With the policy \<open>first\<close>: a \<open>ReleaseHold\<close> at index 0 is operated on, a
  \<open>Hold\<close> gives its operand untouched, an operand on which the operation returns
  \<open>null\<close> is dropped.  And \<open>evaluate\<close> of \<open>f(p, ReleaseHold(b), Hold(a), c)\<close>,
  where \<open>f\<close> holds all its operands but the first: \<open>p\<close> is evaluated, \<open>b\<close> is
  evaluated although its position is held, \<open>a\<close> and \<open>c\<close> are not.
\<close>

theorem holdMap_operands_witness:
  "holdMap ''f''
     [BFunction (HName ''ReleaseHold'') [BAtom (ASymbol ''b'')] Unset None,
      BFunction (HName ''Hold'') [BAtom (ASymbol ''a'')] Unset None,
      BAtom (ASymbol ''d''),
      BAtom (ASymbol ''c'')]
     HoldFirst False
     (\<lambda>x. Some (if x = BAtom (ASymbol ''d'') then None
                  else Some (BFunction (HName ''S'') [x] Unset None))) =
   Some [BFunction (HName ''S'') [BAtom (ASymbol ''b'')] Unset None,
         BAtom (ASymbol ''a''),
         BFunction (HName ''S'') [BAtom (ASymbol ''c'')] Unset None]
   \<and> isValid hold_engine
       (BFunction (HName ''f'')
          [BAtom (ASymbol ''p''),
           BFunction (HName ''ReleaseHold'') [BAtom (ASymbol ''b'')] Self (Some ''ReleaseHold''),
           BFunction (HName ''Hold'') [BAtom (ASymbol ''a'')] Self (Some ''Hold''),
           BAtom (ASymbol ''c'')]
          Self (Some ''f''))
   \<and> functionDefinition hold_engine
       (BFunction (HName ''f'')
          [BAtom (ASymbol ''p''),
           BFunction (HName ''ReleaseHold'') [BAtom (ASymbol ''b'')] Self (Some ''ReleaseHold''),
           BFunction (HName ''Hold'') [BAtom (ASymbol ''a'')] Self (Some ''Hold''),
           BAtom (ASymbol ''c'')]
          Self (Some ''f'')) = Some hold_f
   \<and> evaluate (Suc (Suc 0)) hold_engine
       (BFunction (HName ''f'')
          [BAtom (ASymbol ''p''),
           BFunction (HName ''ReleaseHold'') [BAtom (ASymbol ''b'')] Self (Some ''ReleaseHold''),
           BFunction (HName ''Hold'') [BAtom (ASymbol ''a'')] Self (Some ''Hold''),
           BAtom (ASymbol ''c'')]
          Self (Some ''f''))
     = Some (BFunction (HName ''List'')
               [BAtom (AString ''p''), BAtom (AString ''b''), BAtom (ASymbol ''a''),
                BAtom (ASymbol ''c'')]
               Unset None)"
proof -
  let ?ops = "[BAtom (ASymbol ''p''),
           BFunction (HName ''ReleaseHold'') [BAtom (ASymbol ''b'')] Self (Some ''ReleaseHold''),
           BFunction (HName ''Hold'') [BAtom (ASymbol ''a'')] Self (Some ''Hold''),
           BAtom (ASymbol ''c'')]"
  let ?e = "BFunction (HName ''f'') ?ops Self (Some ''f'')"
  have a: "holdMap ''f''
     [BFunction (HName ''ReleaseHold'') [BAtom (ASymbol ''b'')] Unset None,
      BFunction (HName ''Hold'') [BAtom (ASymbol ''a'')] Unset None,
      BAtom (ASymbol ''d''),
      BAtom (ASymbol ''c'')]
     HoldFirst False
     (\<lambda>x. Some (if x = BAtom (ASymbol ''d'') then None
                  else Some (BFunction (HName ''S'') [x] Unset None))) =
   Some [BFunction (HName ''S'') [BAtom (ASymbol ''b'')] Unset None,
         BAtom (ASymbol ''a''),
         BFunction (HName ''S'') [BAtom (ASymbol ''c'')] Unset None]"
    by (subst holdMap_operands[THEN conjunct1]) (simp add: enumerate_eq_zip upt_rec)
  have p1: "isValid hold_engine ?e" by (simp add: hold_engine_sel)
  have p2: "functionDefinition hold_engine ?e = Some hold_f" by (simp add: hold_engine_sel)
  note t = holdMap_operands[where ce = hold_engine and hn = "''f''" and ops = ?ops
      and d = "Some ''f''" and df = hold_f and n = "Suc 0", THEN conjunct2, THEN conjunct1]
  have ev: "evaluate (Suc (Suc 0)) hold_engine ?e =
           (case holdMap (d_name hold_f) ?ops (d_hold hold_f) (d_associative hold_f)
                   (\<lambda>x. map_option Some (evaluate (Suc 0) hold_engine x)) of
              None \<Rightarrow> None
            | Some tail \<Rightarrow>
                (if d_inert hold_f
                 then Some (case tail of [] \<Rightarrow> ?e | t # ts \<Rightarrow> t)
                 else
                   (case sig_evaluate (d_signature hold_f) of
                      NoEvaluate \<Rightarrow> canonical (Suc 0) hold_engine (ce_fn hold_engine ''f'' tail)
                    | EvaluateLambda l \<Rightarrow>
                        (case subs (Suc 0) hold_engine (lambda_subs hold_engine tail) l of
                           None \<Rightarrow> None
                         | Some r \<Rightarrow> evaluate (Suc 0) hold_engine r)
                    | EvaluateFn handler \<Rightarrow>
                        (case handler tail of
                           Some r \<Rightarrow> Some r
                         | None \<Rightarrow> canonical (Suc 0) hold_engine (ce_fn hold_engine ''f'' tail)))))"
    by (rule mp[OF t conjI[OF p1 p2], THEN conjunct2, THEN conjunct1])
  have at: "\<And>s. evaluate (Suc 0) hold_engine (BAtom (ASymbol s)) = Some (BAtom (AString s))"
    by (simp add: evaluate_body_def hold_engine_sel)
  have tail: "holdMap (d_name hold_f) ?ops (d_hold hold_f) (d_associative hold_f)
                   (\<lambda>x. map_option Some (evaluate (Suc 0) hold_engine x))
              = Some [BAtom (AString ''p''), BAtom (AString ''b''), BAtom (ASymbol ''a''),
                      BAtom (ASymbol ''c'')]"
    by (simp add: hold_f_sel holdMap_def at del: evaluate.simps)
  have r: "evaluate (Suc (Suc 0)) hold_engine ?e
     = Some (BFunction (HName ''List'')
               [BAtom (AString ''p''), BAtom (AString ''b''), BAtom (ASymbol ''a''),
                BAtom (ASymbol ''c'')]
               Unset None)"
    unfolding ev tail by (simp add: hold_f_sel)
  show ?thesis by (rule conjI[OF a conjI[OF p1 conjI[OF p2 r]]])
qed


section \<open>simplify: the cost test of a rewrite step\<close>

lemma cheapest_accepts_iff:
  "cheapest ce newExpr (Some expr) = newExpr \<longleftrightarrow>
     newExpr = expr \<or> \<not> ce_costFunction ce expr \<le> (17 / 10) * ce_costFunction ce newExpr"
  by (auto simp: cheapest_def Let_def)

lemma cheapest_two:
  "cheapest ce newExpr (Some expr) = newExpr \<or> cheapest ce newExpr (Some expr) = expr"
  by (auto simp: cheapest_def Let_def)

lemma simplify_loop_kept:
  "ce_replace ce expr = Some newExpr \<Longrightarrow> cheapest ce newExpr (Some expr) \<noteq> newExpr
     \<Longrightarrow> simplify_loop ce expr k = expr"
proof (induction ce expr k rule: simplify_loop.induct)
  case (1 ce expr k)
  from "1.prems" cheapest_two[of ce newExpr expr]
  have keep: "cheapest ce newExpr (Some expr) = expr" by auto
  have rec: "k + 1 < ce_iterationLimit ce \<Longrightarrow> simplify_loop ce expr (k + 1) = expr"
    using "1.IH"[of newExpr expr] "1.prems" keep by simp
  show ?case
    using "1.prems" keep rec
    by (subst simplify_loop.simps) (simp add: Let_def)
qed

lemma simplify_loop_accepted:
  "ce_replace ce expr = Some newExpr \<Longrightarrow> cheapest ce newExpr (Some expr) = newExpr
     \<Longrightarrow> simplify_loop ce expr k = newExpr"
  by (subst simplify_loop.simps) (simp add: Let_def)

lemma simplify_loop_no_rule:
  "ce_replace ce expr = None \<Longrightarrow> simplify_loop ce expr k = expr"
  by (subst simplify_loop.simps) simp

lemma simplify_loop_step:
  "ce_replace ce expr = Some newExpr \<Longrightarrow>
     simplify_loop ce expr k =
       (if cheapest ce newExpr (Some expr) = newExpr then newExpr else expr)"
  using simplify_loop_kept[of ce expr newExpr k] simplify_loop_accepted[of ce expr newExpr k]
  by auto

text \<open>
  The loop passes the rewritten expression as \<open>oldExpr\<close> and the current one as
  \<open>newExpr\<close>, against the signature \<open>cheapest(oldExpr, newExpr)\<close>.  So the
  rewritten expression is taken exactly when the two are the same or the cost of the
  current expression is more than 1.7 times the cost of the rewritten one
  (\<open>cheapest_accepts_iff\<close>), and it is refused whenever the current expression costs
  at most 1.7 times as much, however cheap the rewritten one is.
\<close>

lemma simplify_loop_refuses:
  assumes "ce_replace ce expr = Some newExpr" and "newExpr \<noteq> expr"
    and "ce_costFunction ce expr \<le> (17 / 10) * ce_costFunction ce newExpr"
  shows "simplify_loop ce expr k = expr"
proof -
  have "cheapest ce newExpr (Some expr) \<noteq> newExpr"
    using assms by (simp add: cheapest_accepts_iff)
  with assms(1) show ?thesis by (rule simplify_loop_kept)
qed

lemma simplify_loop_same_cost_kept:
  assumes "ce_replace ce expr = Some newExpr" and "newExpr \<noteq> expr"
    and "ce_costFunction ce newExpr = ce_costFunction ce expr"
    and "0 \<le> ce_costFunction ce expr"
  shows "simplify_loop ce expr k = expr"
proof -
  have "cheapest ce newExpr (Some expr) \<noteq> newExpr"
    using assms by (simp add: cheapest_accepts_iff)
  with assms(1) show ?thesis by (rule simplify_loop_kept)
qed

lemma rewrite_engine_sel:
  "ce_contextNull rewrite_engine = False"
  "ce_lookupFunction rewrite_engine ''g'' = Some (plain_def ''g'')"
  "ce_fn rewrite_engine h ops = BFunction (HName h) ops Unset None"
  "ce_costFunction rewrite_engine e = real (node_count e)"
  "ce_replace rewrite_engine
     (BFunction (HName ''g'')
        [BAtom (ASymbol ''x''), BAtom (ASymbol ''y''), BAtom (ASymbol ''z'')] Self (Some ''g''))
   = Some (BFunction (HName ''f'') [BAtom (ASymbol ''x''), BAtom (ASymbol ''y'')] Self (Some ''f''))"
  "atom_isValid rewrite_engine a = True"
  "atom_canonical rewrite_engine a = This"
  "atom_simplify rewrite_engine a = BAtom a"
  "ce_domainOf rewrite_engine e = DomLit ''Anything''"
  "ce_isCompatible rewrite_engine dx dy = True"
  by (simp_all add: rewrite_engine_def)

lemma rewrite_engine_loop:
  "simplify_loop rewrite_engine
     (BFunction (HName ''g'')
        [BAtom (ASymbol ''x''), BAtom (ASymbol ''y''), BAtom (ASymbol ''z'')] Self (Some ''g'')) k
   = BFunction (HName ''g'')
        [BAtom (ASymbol ''x''), BAtom (ASymbol ''y''), BAtom (ASymbol ''z'')] Self (Some ''g'')"
  by (rule simplify_loop_refuses[OF rewrite_engine_sel(5)]) (simp_all add: rewrite_engine_sel)

lemma rewrite_engine_canonical:
  "canonical (Suc (Suc (Suc n))) rewrite_engine
     (BFunction (HName ''g'')
        [BAtom (ASymbol ''x''), BAtom (ASymbol ''y''), BAtom (ASymbol ''z'')] Unset None)
   = Some (BFunction (HName ''g'')
        [BAtom (ASymbol ''x''), BAtom (ASymbol ''y''), BAtom (ASymbol ''z'')] Self (Some ''g''))"
proof -
  have at: "\<And>a m. canonical (Suc m) rewrite_engine (BAtom a) = Some (BAtom a)"
    by (simp add: canonical_Suc canonical_get_body_def rewrite_engine_sel)
  have r: "makeCanonicalFunction_resolved rewrite_engine (HName ''g'')
             [BAtom (ASymbol ''x''), BAtom (ASymbol ''y''), BAtom (ASymbol ''z'')]
           = Some (BFunction (HName ''g'')
        [BAtom (ASymbol ''x''), BAtom (ASymbol ''y''), BAtom (ASymbol ''z'')] Self (Some ''g''))"
    by (simp add: makeCanonicalFunction_resolved_def rewrite_engine_sel validateSignature_def)
  show ?thesis
    by (subst canonical_Suc)
       (simp add: canonical_get_body_def makeCanonicalFunction_named at r
          del: makeCanonicalFunction.simps)
qed

lemma rewrite_engine_simplify:
  "simplify (Suc (Suc (Suc (Suc (Suc n))))) rewrite_engine
     (BFunction (HName ''g'')
        [BAtom (ASymbol ''x''), BAtom (ASymbol ''y''), BAtom (ASymbol ''z'')] Self (Some ''g''))
   = Some (BFunction (HName ''g'')
        [BAtom (ASymbol ''x''), BAtom (ASymbol ''y''), BAtom (ASymbol ''z'')] Self (Some ''g''))"
proof -
  let ?E = "BFunction (HName ''g'')
        [BAtom (ASymbol ''x''), BAtom (ASymbol ''y''), BAtom (ASymbol ''z'')] Self (Some ''g'')"
  have at: "\<And>a m. simplify (Suc m) rewrite_engine (BAtom a) = Some (BAtom a)"
    by (simp add: simplify_body_def rewrite_engine_sel)
  have fd: "functionDefinition rewrite_engine ?E = Some (plain_def ''g'')"
    by (simp add: rewrite_engine_sel)
  have tail: "hold_tail rewrite_engine ?E
                [BAtom (ASymbol ''x''), BAtom (ASymbol ''y''), BAtom (ASymbol ''z'')]
                (simplify (Suc (Suc (Suc (Suc n)))) rewrite_engine)
              = Some [BAtom (ASymbol ''x''), BAtom (ASymbol ''y''), BAtom (ASymbol ''z'')]"
    unfolding hold_tail_def fd by (simp add: holdMap_def at del: simplify.simps)
  have hdl: "\<And>canon. simplify_handler canon rewrite_engine ?E
               [BAtom (ASymbol ''x''), BAtom (ASymbol ''y''), BAtom (ASymbol ''z'')] = Some None"
    unfolding simplify_handler_def fd by simp
  have valid: "isValid rewrite_engine ?E" by (simp add: rewrite_engine_sel)
  have can: "map_option (deref (BFunction (HName ''g'')
        [BAtom (ASymbol ''x''), BAtom (ASymbol ''y''), BAtom (ASymbol ''z'')] Unset None))
       (canonical_get (Suc (Suc (Suc (Suc n)))) rewrite_engine (BFunction (HName ''g'')
        [BAtom (ASymbol ''x''), BAtom (ASymbol ''y''), BAtom (ASymbol ''z'')] Unset None)) = Some ?E"
    using rewrite_engine_canonical[of "Suc n"] by (simp only: canonical_def)
  show ?thesis
    apply (subst simplify.simps)
    apply (subst simplify_body_def)
    apply (simp only: bexpr.case valid isCanonical.simps tail hdl option.case bhead.case
             rewrite_engine_sel can rewrite_engine_loop simp_thms if_True if_False)
    done
qed

text \<open>
  C1 at the input where the code leaves it.  The rule rewrites the canonical
  \<open>g(x, y, z)\<close>, of cost 4, into \<open>f(x, y)\<close>, of cost 3: the rewritten expression
  costs less than the current one, so it is within 1.7 times its cost, and the loop,
  and \<open>simplify\<close>, keep \<open>g(x, y, z)\<close>, since 4 is not more than 1.7 times 3.
  With the arguments in the order of its signature, \<open>cheapest\<close> takes \<open>f(x, y)\<close>.
\<close>

theorem simplify_refuses_cheaper_rewrite:
  "ce_replace rewrite_engine
     (BFunction (HName ''g'')
        [BAtom (ASymbol ''x''), BAtom (ASymbol ''y''), BAtom (ASymbol ''z'')] Self (Some ''g''))
   = Some (BFunction (HName ''f'') [BAtom (ASymbol ''x''), BAtom (ASymbol ''y'')] Self (Some ''f''))
   \<and> ce_costFunction rewrite_engine
       (BFunction (HName ''g'')
          [BAtom (ASymbol ''x''), BAtom (ASymbol ''y''), BAtom (ASymbol ''z'')] Self (Some ''g''))
     = 4
   \<and> ce_costFunction rewrite_engine
       (BFunction (HName ''f'') [BAtom (ASymbol ''x''), BAtom (ASymbol ''y'')] Self (Some ''f''))
     = 3
   \<and> simplify_loop rewrite_engine
       (BFunction (HName ''g'')
          [BAtom (ASymbol ''x''), BAtom (ASymbol ''y''), BAtom (ASymbol ''z'')] Self (Some ''g'')) 0
     = BFunction (HName ''g'')
          [BAtom (ASymbol ''x''), BAtom (ASymbol ''y''), BAtom (ASymbol ''z'')] Self (Some ''g'')
   \<and> simplify 5 rewrite_engine
       (BFunction (HName ''g'')
          [BAtom (ASymbol ''x''), BAtom (ASymbol ''y''), BAtom (ASymbol ''z'')] Self (Some ''g''))
     = Some (BFunction (HName ''g'')
          [BAtom (ASymbol ''x''), BAtom (ASymbol ''y''), BAtom (ASymbol ''z'')] Self (Some ''g''))
   \<and> cheapest rewrite_engine
       (BFunction (HName ''g'')
          [BAtom (ASymbol ''x''), BAtom (ASymbol ''y''), BAtom (ASymbol ''z'')] Self (Some ''g''))
       (Some (BFunction (HName ''f'') [BAtom (ASymbol ''x''), BAtom (ASymbol ''y'')] Self (Some ''f'')))
     = BFunction (HName ''f'') [BAtom (ASymbol ''x''), BAtom (ASymbol ''y'')] Self (Some ''f'')"
proof -
  have five: "(5::nat) = Suc (Suc (Suc (Suc (Suc 0))))" by simp
  have a: "ce_replace rewrite_engine
     (BFunction (HName ''g'')
        [BAtom (ASymbol ''x''), BAtom (ASymbol ''y''), BAtom (ASymbol ''z'')] Self (Some ''g''))
   = Some (BFunction (HName ''f'') [BAtom (ASymbol ''x''), BAtom (ASymbol ''y'')] Self (Some ''f''))"
    by (rule rewrite_engine_sel)
  have b: "ce_costFunction rewrite_engine
       (BFunction (HName ''g'')
          [BAtom (ASymbol ''x''), BAtom (ASymbol ''y''), BAtom (ASymbol ''z'')] Self (Some ''g''))
     = 4"
    by (simp add: rewrite_engine_sel)
  have c: "ce_costFunction rewrite_engine
       (BFunction (HName ''f'') [BAtom (ASymbol ''x''), BAtom (ASymbol ''y'')] Self (Some ''f''))
     = 3"
    by (simp add: rewrite_engine_sel)
  have d: "simplify_loop rewrite_engine
       (BFunction (HName ''g'')
          [BAtom (ASymbol ''x''), BAtom (ASymbol ''y''), BAtom (ASymbol ''z'')] Self (Some ''g'')) 0
     = BFunction (HName ''g'')
          [BAtom (ASymbol ''x''), BAtom (ASymbol ''y''), BAtom (ASymbol ''z'')] Self (Some ''g'')"
    by (rule rewrite_engine_loop)
  have e: "simplify 5 rewrite_engine
       (BFunction (HName ''g'')
          [BAtom (ASymbol ''x''), BAtom (ASymbol ''y''), BAtom (ASymbol ''z'')] Self (Some ''g''))
     = Some (BFunction (HName ''g'')
          [BAtom (ASymbol ''x''), BAtom (ASymbol ''y''), BAtom (ASymbol ''z'')] Self (Some ''g''))"
    unfolding five by (rule rewrite_engine_simplify)
  have f: "cheapest rewrite_engine
       (BFunction (HName ''g'')
          [BAtom (ASymbol ''x''), BAtom (ASymbol ''y''), BAtom (ASymbol ''z'')] Self (Some ''g''))
       (Some (BFunction (HName ''f'') [BAtom (ASymbol ''x''), BAtom (ASymbol ''y'')] Self (Some ''f'')))
     = BFunction (HName ''f'') [BAtom (ASymbol ''x''), BAtom (ASymbol ''y'')] Self (Some ''f'')"
    by (simp add: cheapest_def rewrite_engine_sel)
  show ?thesis by (rule conjI[OF a conjI[OF b conjI[OF c conjI[OF d conjI[OF e f]]]]])
qed


section \<open>Invalid expressions\<close>











text \<open>
  \<open>isValid\<close> of a function expression that is not canonical and has a name other
  than \<open>Error\<close> for head does not look at the operands ("If this expression is not
  canonical, nothing else to check").
\<close>

lemma noncanonical_named_isValid:
  "n \<noteq> ''Error'' \<Longrightarrow> c \<noteq> Self \<Longrightarrow> isValid ce (BFunction (HName n) ops c d)"
  by simp


section \<open>makeCanonicalFunction: flattening, involution, idempotence, sorting\<close>







lemma length_insert_sorted: "length (insert_sorted cmp x ys) = Suc (length ys)"
  by (induction ys) auto

lemma length_sort_by: "length (sort_by cmp xs) = length xs"
  by (induction xs) (auto simp: length_insert_sorted)










section \<open>N: the handler, the fall back to evaluate, the numeric mode\<close>

text \<open>
  C6, as the code has it.  For a canonical, valid function expression with a named
  head whose definition is not inert, \<open>tail\<close> being the operands after \<open>N\<close> has
  been applied to those not held: \<open>N\<close> takes the result of the \<open>N\<close> handler; when
  there is no handler or it returns \<open>undefined\<close>, \<open>N\<close> takes the result of
  \<open>evaluate\<close> on the function of the head and \<open>tail\<close>.  Then a literal result
  that is complex, in a mode that does not allow complex numbers, is replaced by
  \<open>NaN\<close>; otherwise a literal result that is a bignum, in a mode that does not
  prefer bignums, is converted to a machine number; any other result is returned as
  it is.
\<close>

theorem N_handler_then_mode:
  assumes e: "e = BFunction (HName hn) ops Self d"
    and valid: "isValid ce e"
    and df: "functionDefinition ce e = Some df"
    and inert: "\<not> d_inert df"
    and tail: "hold_tail ce e ops (\<lambda>x. N n ce x) = Some tail"
  shows "(N_handler df tail = Some r \<longrightarrow> N (Suc n) ce e = Some (N_result ce r))
       \<and> (N_handler df tail = None \<longrightarrow>
            N (Suc n) ce e = map_option (N_result ce) (evaluate n ce (ce_fn ce hn tail)))
       \<and> (isLiteral r \<and> \<not> ce_complexAllowed ce \<and> complexValue r = Some z
            \<longrightarrow> N_result ce r = ce_NAN)
       \<and> (isLiteral r \<and> (ce_complexAllowed ce \<or> complexValue r = None)
            \<and> \<not> ce_preferBignum ce \<and> bignumValue r = Some b
            \<longrightarrow> N_result ce r = ce_number (ce_toNumber ce b))
       \<and> (\<not> isLiteral r \<or> (complexValue r = None \<and> bignumValue r = None)
            \<longrightarrow> N_result ce r = r)"
proof -
  have n: "N (Suc n) ce e =
      (case (case N_handler df tail of Some r \<Rightarrow> Some r
             | None \<Rightarrow> evaluate n ce (ce_fn ce hn tail)) of
         None \<Rightarrow> None | Some result \<Rightarrow> Some (N_result ce result))"
    using valid df inert tail unfolding e
    by (simp add: N_body_def del: isValid.simps functionDefinition.simps)
  have a: "N_handler df tail = Some r \<longrightarrow> N (Suc n) ce e = Some (N_result ce r)"
    unfolding n by simp
  have b: "N_handler df tail = None \<longrightarrow>
            N (Suc n) ce e = map_option (N_result ce) (evaluate n ce (ce_fn ce hn tail))"
    unfolding n by (simp split: option.splits)
  have c: "isLiteral r \<and> \<not> ce_complexAllowed ce \<and> complexValue r = Some z
            \<longrightarrow> N_result ce r = ce_NAN"
    by (simp add: N_result_def)
  have d: "isLiteral r \<and> (ce_complexAllowed ce \<or> complexValue r = None)
            \<and> \<not> ce_preferBignum ce \<and> bignumValue r = Some b
            \<longrightarrow> N_result ce r = ce_number (ce_toNumber ce b)"
    by (auto simp: N_result_def)
  have f: "\<not> isLiteral r \<or> (complexValue r = None \<and> bignumValue r = None)
            \<longrightarrow> N_result ce r = r"
    by (auto simp: N_result_def)
  show ?thesis
    by (rule conjI[OF a conjI[OF b conjI[OF c conjI[OF d f]]]])
qed

text \<open>The handler of \<open>f\<close> returns \<open>1 + 2i\<close> and the mode does not allow complex
  numbers: \<open>N\<close> returns \<open>NaN\<close>.\<close>

theorem N_handler_then_mode_witness:
  "isValid machine_engine (BFunction (HName ''f'') [] Self (Some ''f''))
   \<and> functionDefinition machine_engine (BFunction (HName ''f'') [] Self (Some ''f''))
       = Some complex_f
   \<and> \<not> d_inert complex_f
   \<and> N_handler complex_f [] = Some (BAtom (ANumber (ComplexNum 1 2)))
   \<and> N (Suc 0) machine_engine (BFunction (HName ''f'') [] Self (Some ''f'')) = Some ce_NAN"
proof -
  let ?e = "BFunction (HName ''f'') [] Self (Some ''f'')"
  let ?r = "BAtom (ANumber (ComplexNum 1 2))"
  have p3: "functionDefinition machine_engine ?e = Some complex_f"
    by (simp add: machine_engine_def)
  have p2: "isValid machine_engine ?e"
    by (simp add: machine_engine_def)
  have p4: "\<not> d_inert complex_f" by (simp add: complex_f_def)
  have p5: "hold_tail machine_engine ?e [] (\<lambda>x. N 0 machine_engine x) = Some []"
    by (simp add: hold_tail_def holdMap_def machine_engine_def)
  have q: "N_handler complex_f [] = Some ?r"
    by (simp add: N_handler_def complex_f_def)
  have q2: "isLiteral ?r \<and> \<not> ce_complexAllowed machine_engine \<and> complexValue ?r = Some (1, 2)"
    by (simp add: machine_engine_def)
  note t = N_handler_then_mode[OF refl p2 p3 p4 p5, of ?r "(1, 2)" 0]
  have r1: "N (Suc 0) machine_engine ?e = Some (N_result machine_engine ?r)"
    by (rule mp[OF t[THEN conjunct1] q])
  have r2: "N_result machine_engine ?r = ce_NAN"
    by (rule mp[OF t[THEN conjunct2, THEN conjunct2, THEN conjunct1] q2])
  have r: "N (Suc 0) machine_engine ?e = Some ce_NAN"
    using r1 unfolding r2 .
  show ?thesis
    by (rule conjI[OF p2 conjI[OF p3 conjI[OF p4 conjI[OF q r]]]])
qed

text \<open>The complex part is not discarded: the result is \<open>NaN\<close>, not the real part
  \<open>1\<close>.\<close>

theorem N_complex_counterexample:
  "N (Suc 0) machine_engine (BFunction (HName ''f'') [] Self (Some ''f'')) = Some ce_NAN
   \<and> ce_NAN \<noteq> ce_number (Machine 1)"
  by (simp add: N_body_def hold_tail_def holdMap_def machine_engine_def
        complex_f_def N_handler_def N_result_def ce_NAN_def ce_number_def)

section \<open>match: heads and operands\<close>

lemma match_heads_differ:
  "h \<noteq> rh \<Longrightarrow>
   match ce (BFunction (HName h) ops c d) (Some (BFunction (HName rh) rops rc rd)) = None"
  by simp

lemma match_not_a_function:
  "match ce (BFunction h ops c d) (Some (BAtom a)) = None"
  by simp

text \<open>
  C7 at the inputs where the code leaves it.  The loop of \<open>match\<close> runs over the
  operands of the pattern and never compares the numbers of operands: the pattern
  \<open>f()\<close> matches \<open>f(x)\<close>, and the pattern \<open>f(g())\<close> matches \<open>f(g(), h())\<close>,
  both with the empty substitution.
\<close>

theorem match_arity_ignored:
  "match example_engine (BFunction (HName ''f'') [] Unset None)
     (Some (BFunction (HName ''f'') [BAtom (ASymbol ''x'')] Unset None)) = Some Map.empty
   \<and> match example_engine
       (BFunction (HName ''f'') [BFunction (HName ''g'') [] Unset None] Unset None)
       (Some (BFunction (HName ''f'')
          [BFunction (HName ''g'') [] Unset None, BFunction (HName ''h'') [] Unset None]
          Unset None)) = Some Map.empty"
  by simp

text \<open>A target with more operands than the pattern matches whenever its first
  operands do.\<close>

lemma match_ops_prefix:
  "match_ops ce lhsTail rhsTail result = Some m \<Longrightarrow> length lhsTail \<le> length rhsTail
     \<Longrightarrow> match_ops ce lhsTail (rhsTail @ extra) result = Some m"
proof (induction lhsTail arbitrary: rhsTail result)
  case Nil
  then show ?case by simp
next
  case (Cons l lhsTail)
  then obtain r rs where rhs: "rhsTail = r # rs" by (cases rhsTail) auto
  with Cons show ?case by (auto split: option.splits)
qed

section \<open>sgn of a product\<close>

lemma sgn_Multiply_not_undefined: "sgn_Multiply signs \<noteq> SgnUndefined"
  by (simp add: sgn_Multiply_def split: option.splits)

lemma foldl_times_NaN_None:
  "foldl (\<lambda>acc s. times_NaN acc (sgn_or_NaN s)) None signs = None"
  by (induction signs) auto

lemma sgn_Multiply_unknown:
  "SgnUndefined \<in> set signs \<or> SgnNull \<in> set signs \<Longrightarrow> sgn_Multiply signs = SgnNull"
proof -
  have "\<And>acc. SgnUndefined \<in> set signs \<or> SgnNull \<in> set signs \<Longrightarrow>
          foldl (\<lambda>acc s. times_NaN acc (sgn_or_NaN s)) acc signs = None"
  proof (induction signs)
    case Nil
    then show ?case by simp
  next
    case (Cons s signs)
    show ?case
    proof (cases "s = SgnUndefined \<or> s = SgnNull")
      case True
      then have "times_NaN acc (sgn_or_NaN s) = None" by (cases acc) auto
      then show ?thesis by (simp add: foldl_times_NaN_None)
    next
      case False
      with Cons.prems have "SgnUndefined \<in> set signs \<or> SgnNull \<in> set signs" by auto
      from Cons.IH[OF this] show ?thesis by simp
    qed
  qed
  then show "SgnUndefined \<in> set signs \<or> SgnNull \<in> set signs \<Longrightarrow> sgn_Multiply signs = SgnNull"
    by (simp add: sgn_Multiply_def)
qed

text \<open>
  C8 at the input where the code leaves it.  In the product of the number \<open>2\<close> and
  the symbol \<open>x\<close>, whose sign is \<open>undefined\<close> (not known), the sign of the
  product is \<open>null\<close> (never a sign), not \<open>undefined\<close>: \<open>x.sgn ?? NaN\<close> turns
  both \<open>undefined\<close> and \<open>null\<close> into \<open>NaN\<close>.
\<close>

theorem sgn_Multiply_unknown_operand:
  "sgn_of (Suc (Suc 0)) sign_engine
     (BFunction (HName ''Multiply'') [BAtom (ANumber (Machine 2)), BAtom (ASymbol ''x'')]
        Self (Some ''Multiply'')) = Some SgnNull
   \<and> sgn_of (Suc 0) sign_engine (BAtom (ASymbol ''x'')) = Some SgnUndefined
   \<and> sgn_of (Suc 0) sign_engine (BAtom (ANumber (Machine 2))) = Some Positive"
  by (simp add: sgn_body_def sgn_Multiply_def sign_engine_def)

text \<open>The sibling branch \<open>Negate\<close> keeps the two apart.\<close>

lemma sgn_Negate_unknown_operand:
  "sgn_of (Suc (Suc 0)) sign_engine
     (BFunction (HName ''Negate'') [BAtom (ASymbol ''x'')] Self (Some ''Negate''))
   = Some SgnUndefined"
  by (simp add: sgn_body_def sign_engine_def)


section \<open>parse: tokens left after the first expression\<close>

lemma example_syntax_sel [simp]:
  "ls_tokenize example_syntax s = map (\<lambda>c. [c]) s"
  "ls_matchExpression example_syntax p = example_primary p"
  "ls_peekDefinitions_infix example_syntax p =
     (if \<not> atEnd p \<and> p_tokens p ! p_index p = ''+'' then Some [(example_Add, 1)] else None)"
  "ls_error example_syntax p code start = EArr [EStr ''Error'', code]"
  "ls_tokensToString example_syntax ts = concat ts"
  "ls_preserveLatex example_syntax = False"
  by (simp_all add: example_syntax_def)

lemma consume_rest_at_end: "atEnd p \<Longrightarrow> consume_rest p = p"
  by (subst consume_rest.simps) simp

lemma consume_rest_step: "\<not> atEnd p \<Longrightarrow> consume_rest p = consume_rest (snd (next_token p))"
  by (subst consume_rest.simps) simp

lemma unexpected_error_eq:
  "unexpected_error ls p =
     ls_error ls (consume_rest (snd (next_token p)))
       (EArr [EStr (if length (p_tokens p ! p_index p) > 1
                       \<and> take 1 (p_tokens p ! p_index p) = [CHR 0x5C]
                    then ''unexpected-command'' else ''unexpected-token''),
              EStrObj (ls_tokensToString ls [p_tokens p ! p_index p]) None])
       (p_index p)"
  by (simp add: unexpected_error_def unexpected_tag_def next_token_def bs_def Let_def)








text \<open>Nothing parsed: the error alone, not in a sequence.\<close>

lemma parse_nothing_parsed:
  "parse example_syntax [CHR 0x7D]
     = Inr (EArr [EStr ''Error'', EArr [EStr ''unexpected-token'', EStrObj [CHR 0x7D] None]])"
  by (simp add: parse_def example_primary_def atEnd_def Let_def parse_rest_def
        preserve_latex_def unexpected_error_eq)

text \<open>The test \<open>!expr\<close> is also true of the number \<open>0\<close>: in \<open>0}\<close> the
  expression \<open>0\<close> is dropped and the error alone is returned.\<close>

lemma parse_zero_dropped:
  "parse example_syntax [CHR ''0'', CHR 0x7D]
     = Inr (EArr [EStr ''Error'', EArr [EStr ''unexpected-token'', EStrObj [CHR 0x7D] None]])"
  by (simp add: parse_def example_primary_def atEnd_def Let_def parse_rest_def
        preserve_latex_def unexpected_error_eq)

text \<open>A token that is the backslash alone is tagged \<open>unexpected-token\<close>.\<close>

lemma unexpected_tag_backslash:
  "unexpected_tag bs = ''unexpected-token''"
  "unexpected_tag (bs @ ''foo'') = ''unexpected-command''"
  by (simp_all add: unexpected_tag_def bs_def)


section \<open>serializeMultiply: numerator and denominator\<close>

lemma base_serializer_sel [simp]:
  "s_serialize base_serializer = base_serialize"
  "s_wrap base_serializer level e prec = base_serialize level e"
  "s_wrapShort base_serializer = base_serialize"
  "s_fractionStyle base_serializer x level = Quotient"
  "s_machineValue base_serializer e = (case e of Some (ENum n) \<Rightarrow> Some n | _ \<Rightarrow> None)"
  "s_rationalValue base_serializer e =
     (case e of
        Some (EArr [EStr h, ENum n, ENum d]) \<Rightarrow>
          (if h = ''Rational'' \<or> h = ''Divide'' then Some (n, d) else None)
      | _ \<Rightarrow> None)"
  "s_missingIfEmpty base_serializer e =
     (case e of None \<Rightarrow> EArr [EStr ''Error'', EStr ''missing''] | Some x \<Rightarrow> x)"
  by (simp_all add: base_serializer_def)

lemma example_serializer_sel [simp]:
  "s_serialize example_serializer level e =
     (if head e = Some (EStr ''Divide'')
      then serializeFraction base_serializer (level + 1) e
      else base_serialize level e)"
  "s_machineValue example_serializer = s_machineValue base_serializer"
  "s_rationalValue example_serializer = s_rationalValue base_serializer"
  by (simp_all add: example_serializer_def)


lemma numeratorDenominator_numerator:
  assumes "head (Some e) = Some (EStr ''Multiply'')"
    and "ops_expr (Some e) = Some args"
    and "numeratorDenominator ser e = (numer, denom)"
    and "arg \<in> set args"
    and "x \<in> set (fst (numeratorDenominator_arg ser arg))"
  shows "x \<in> set numer"
  using assms by (auto simp: numeratorDenominator_def Let_def)



lemma show_nat_digits [simp]:
  "show_nat 1 = ''1''" "show_nat 2 = ''2''" "show_nat 3 = ''3''"
  by (simp_all add: show_nat_def numeral_2_eq_2 numeral_3_eq_3)






section \<open>The canonical form of a canonical form\<close>




























text \<open>
  Well-formedness is what \<open>ce._fn\<close> asks of its caller ("the caller has to ensure
  that all the conditions are met (i.e. \<open>ops\<close> properly normalized and sorted, all
  \<open>ops\<close> canonical, etc..) so that the result is actually canonical").  It is used:
  of the operand \<open>Negate(f())\<close> marked canonical over an operand that is not, the
  involution takes the operand \<open>f()\<close> as the canonical form of
  \<open>Negate(Negate(f()))\<close>, and the getter of \<open>f()\<close> returns another object.
\<close>

lemma canonical_of_marked_operand:
  "\<not> well_formed flag_engine
       (BFunction (HName ''Negate'')
          [BFunction (HName ''Negate'') [BFunction (HName ''f'') [] Unset None]
             Self (Some ''Negate'')]
          Unset None)
   \<and> canonical (Suc (Suc (Suc 0))) flag_engine
       (BFunction (HName ''Negate'')
          [BFunction (HName ''Negate'') [BFunction (HName ''f'') [] Unset None]
             Self (Some ''Negate'')]
          Unset None)
     = Some (BFunction (HName ''f'') [] Unset None)
   \<and> canonical_get (Suc (Suc 0)) flag_engine (BFunction (HName ''f'') [] Unset None)
     = Some (Other (BFunction (HName ''f'') [] Self None))"
proof -
  have g: "canonical (Suc 0) flag_engine
             (BFunction (HName ''Negate'') [BFunction (HName ''f'') [] Unset None]
                Self (Some ''Negate''))
           = Some (BFunction (HName ''Negate'') [BFunction (HName ''f'') [] Unset None]
                Self (Some ''Negate''))"
    by (subst canonical_Suc) (simp add: canonical_get_body_def)
  have r: "makeCanonicalFunction_resolved flag_engine (HName ''Negate'')
             [BFunction (HName ''Negate'') [BFunction (HName ''f'') [] Unset None]
                Self (Some ''Negate'')]
           = Some (BFunction (HName ''f'') [] Unset None)"
    by (simp add: makeCanonicalFunction_resolved_def flag_engine_def validateSignature_def)
  have a: "\<not> well_formed flag_engine
       (BFunction (HName ''Negate'')
          [BFunction (HName ''Negate'') [BFunction (HName ''f'') [] Unset None]
             Self (Some ''Negate'')]
          Unset None)"
    by simp
  have b: "canonical (Suc (Suc (Suc 0))) flag_engine
       (BFunction (HName ''Negate'')
          [BFunction (HName ''Negate'') [BFunction (HName ''f'') [] Unset None]
             Self (Some ''Negate'')]
          Unset None)
     = Some (BFunction (HName ''f'') [] Unset None)"
    by (subst canonical_Suc)
       (simp add: canonical_get_body_def makeCanonicalFunction_named g r
          del: makeCanonicalFunction.simps)
  have r2: "makeCanonicalFunction_resolved flag_engine (HName ''f'') []
           = Some (BFunction (HName ''f'') [] Self None)"
    by (simp add: makeCanonicalFunction_resolved_def flag_engine_def)
  have c: "canonical_get (Suc (Suc 0)) flag_engine (BFunction (HName ''f'') [] Unset None)
     = Some (Other (BFunction (HName ''f'') [] Self None))"
    by (simp add: canonical_get_body_def makeCanonicalFunction_named r2
          del: makeCanonicalFunction.simps)
  show ?thesis by (rule conjI[OF a conjI[OF b c]])
qed

end
